theory Spec2Isabelle
  imports Complex_Main
begin

section \<open>Values of the Python runtime\<close>

text \<open>
  The configuration (the result of \<open>yaml.safe_load\<close>), the request payloads and the
  bodies of the responses are Python values built from \<open>None\<close>, booleans, integers,
  strings, lists and dictionaries with string keys. A dictionary is an association
  list in insertion order; a lookup takes the first binding of a key. Floats and YAML
  timestamps are outside this model.
\<close>

datatype json =
    JNull
  | JBool bool
  | JInt int
  | JStr string
  | JList "json list"
  | JObj "(string \<times> json) list"

text \<open>The exceptions the program can raise and does not catch, and \<open>sys.exit\<close>.\<close>

datatype pyexc =
    KeyError
  | TypeError
  | AttributeError
  | ValueError
  | OverflowError
  | UnboundLocalError
  | JSONDecodeError
  | RequestException

datatype abort = Exit int | Uncaught pyexc

text \<open>Truth value of an object, as \<open>if x:\<close> and \<open>not x\<close> test it.\<close>

fun truthy :: "json \<Rightarrow> bool" where
  "truthy JNull = False"
| "truthy (JBool b) = b"
| "truthy (JInt i) = (i \<noteq> 0)"
| "truthy (JStr s) = (s \<noteq> [])"
| "truthy (JList xs) = (xs \<noteq> [])"
| "truthy (JObj kvs) = (kvs \<noteq> [])"

text \<open>
  \<open>a == b\<close>: \<open>True == 1\<close> and \<open>False == 0\<close> hold in Python, lists are compared
  element by element, dictionaries key by key whatever the order of insertion.
\<close>

fun py_eq :: "json \<Rightarrow> json \<Rightarrow> bool"
  and py_eq_list :: "json list \<Rightarrow> json list \<Rightarrow> bool"
  and py_eq_items :: "(string \<times> json) list \<Rightarrow> (string \<times> json) list \<Rightarrow> bool" where
  "py_eq JNull b = (b = JNull)"
| "py_eq (JBool x) b =
     (case b of JBool y \<Rightarrow> x = y | JInt j \<Rightarrow> (if x then 1 else 0) = j | _ \<Rightarrow> False)"
| "py_eq (JInt i) b =
     (case b of JInt j \<Rightarrow> i = j | JBool y \<Rightarrow> i = (if y then 1 else 0) | _ \<Rightarrow> False)"
| "py_eq (JStr s) b = (b = JStr s)"
| "py_eq (JList xs) b = (case b of JList ys \<Rightarrow> py_eq_list xs ys | _ \<Rightarrow> False)"
| "py_eq (JObj kvs) b =
     (case b of JObj kws \<Rightarrow>
        length (remdups (map fst kvs)) = length (remdups (map fst kws)) \<and> py_eq_items kvs kws
      | _ \<Rightarrow> False)"
| "py_eq_list [] ys = (ys = [])"
| "py_eq_list (x # xs) ys =
     (case ys of [] \<Rightarrow> False | y # ys' \<Rightarrow> py_eq x y \<and> py_eq_list xs ys')"
| "py_eq_items [] kws = True"
| "py_eq_items ((k, v) # kvs) kws =
     ((case map_of kws k of None \<Rightarrow> False | Some w \<Rightarrow> py_eq v w) \<and> py_eq_items kvs kws)"

text \<open>\<open>d[k]\<close> with a string key: only a dictionary can be subscripted by a string.\<close>

definition subscript :: "json \<Rightarrow> string \<Rightarrow> abort + json" where
  "subscript d k =
     (case d of
        JObj kvs \<Rightarrow> (case map_of kvs k of None \<Rightarrow> Inl (Uncaught KeyError) | Some v \<Rightarrow> Inr v)
      | _ \<Rightarrow> Inl (Uncaught TypeError))"

text \<open>\<open>d.get(k, default)\<close>: only a dictionary has the method.\<close>

definition dict_get :: "json \<Rightarrow> string \<Rightarrow> json \<Rightarrow> abort + json" where
  "dict_get d k dflt =
     (case d of
        JObj kvs \<Rightarrow> (case map_of kvs k of None \<Rightarrow> Inr dflt | Some v \<Rightarrow> Inr v)
      | _ \<Rightarrow> Inl (Uncaught AttributeError))"

text \<open>
  \<open>for x in v\<close>: a list yields its elements, a dictionary its keys, a string its
  characters; nothing else can be iterated.
\<close>

definition py_iter :: "json \<Rightarrow> abort + json list" where
  "py_iter v =
     (case v of
        JList xs \<Rightarrow> Inr xs
      | JObj kvs \<Rightarrow> Inr (map JStr (remdups (map fst kvs)))
      | JStr s \<Rightarrow> Inr (map (\<lambda>c. JStr [c]) s)
      | _ \<Rightarrow> Inl (Uncaught TypeError))"

text \<open>Decimal notation of an integer, as \<open>str\<close> prints it.\<close>

function str_nat :: "nat \<Rightarrow> string" where
  "str_nat n =
     (if n < 10 then [''0123456789'' ! n] else str_nat (n div 10) @ [''0123456789'' ! (n mod 10)])"
  by pat_completeness auto
termination
  by (relation "measure id") auto

declare str_nat.simps [simp del]

definition str_int :: "int \<Rightarrow> string" where
  "str_int i = (if i < 0 then CHR ''-'' # str_nat (nat (- i)) else str_nat (nat i))"

text \<open>
  \<open>str(v)\<close>, as an f-string inserts a value. The text of a list or a dictionary is made
  of the \<open>repr\<close> of its parts, which the runtime decides (quoting and escaping):
  it is the parameter \<open>repr\<close>.
\<close>

definition py_str :: "(json \<Rightarrow> string) \<Rightarrow> json \<Rightarrow> string" where
  "py_str repr v =
     (case v of
        JNull \<Rightarrow> ''None''
      | JBool b \<Rightarrow> (if b then ''True'' else ''False'')
      | JInt i \<Rightarrow> str_int i
      | JStr s \<Rightarrow> s
      | _ \<Rightarrow> repr v)"

text \<open>
  The name-keyed dictionaries \<open>name_to_project\<close> and \<open>name_to_epic\<close>: their keys are
  whatever the configuration has under \<open>name\<close>. A list or a dictionary is not hashable.
\<close>

fun hashable :: "json \<Rightarrow> bool" where
  "hashable (JList xs) = False"
| "hashable (JObj kvs) = False"
| "hashable v = True"

type_synonym namemap = "(json \<times> json) list"

fun nm_lookup :: "namemap \<Rightarrow> json \<Rightarrow> json option" where
  "nm_lookup [] k = None"
| "nm_lookup ((k', v) # m) k = (if py_eq k' k then Some v else nm_lookup m k)"

fun nm_update :: "namemap \<Rightarrow> json \<Rightarrow> json \<Rightarrow> namemap" where
  "nm_update [] k v = [(k, v)]"
| "nm_update ((k', v') # m) k v =
     (if py_eq k' k then (k', v) # m else (k', v') # nm_update m k v)"

text \<open>\<open>m[k] = v\<close> and \<open>m.get(k)\<close> on such a dictionary.\<close>

definition nm_set :: "namemap \<Rightarrow> json \<Rightarrow> json \<Rightarrow> abort + namemap" where
  "nm_set m k v = (if hashable k then Inr (nm_update m k v) else Inl (Uncaught TypeError))"

definition nm_get :: "namemap \<Rightarrow> json \<Rightarrow> abort + json" where
  "nm_get m k =
     (if hashable k then Inr (case nm_lookup m k of None \<Rightarrow> JNull | Some v \<Rightarrow> v)
      else Inl (Uncaught TypeError))"


text \<open>\<open>int(v)\<close>; the parsing of a string is the runtime's (\<open>int_of_str\<close>).\<close>

definition py_int :: "(string \<Rightarrow> int option) \<Rightarrow> json \<Rightarrow> abort + int" where
  "py_int int_of_str v =
     (case v of
        JInt i \<Rightarrow> Inr i
      | JBool b \<Rightarrow> Inr (if b then 1 else 0)
      | JStr s \<Rightarrow> (case int_of_str s of None \<Rightarrow> Inl (Uncaught ValueError) | Some i \<Rightarrow> Inr i)
      | _ \<Rightarrow> Inl (Uncaught TypeError))"

text \<open>\<open>d[k] = v\<close> on a dictionary with string keys.\<close>

fun dict_set :: "(string \<times> json) list \<Rightarrow> string \<Rightarrow> json \<Rightarrow> (string \<times> json) list" where
  "dict_set [] k v = [(k, v)]"
| "dict_set ((k', v') # kvs) k v =
     (if k' = k then (k', v) # kvs else (k', v') # dict_set kvs k v)"

section \<open>The process: environment, transport and state\<close>

record request =
  rq_method :: string
  rq_url :: string
  rq_headers :: "(string \<times> string) list"
  rq_json :: "json option"

text \<open>
  A response: its status code, the value \<open>resp.json()\<close> parses from the body
  (\<open>None\<close> when the body is not JSON and \<open>resp.json()\<close> raises) and \<open>resp.text\<close>.
\<close>

record response =
  status_code :: int
  json_body :: "json option"
  text_body :: string

text \<open>
  What the program reads from outside: the two environment variables, the transport
  \<open>requests.request\<close> (a transition of the remote side \<open>'w\<close> that answers or raises),
  the clock (\<open>today tzname\<close> is the proleptic Gregorian ordinal of the date of
  \<open>datetime.now(tz.gettz(tzname))\<close>, or the exception raised there), and the
  runtime's \<open>date.isoformat\<close>, \<open>int\<close> on strings and \<open>repr\<close>.
\<close>

record 'w env =
  token :: "string option"
  api_base :: string
  http :: "'w \<Rightarrow> request \<Rightarrow> (pyexc + response) \<times> 'w"
  today :: "json \<Rightarrow> pyexc + int"
  isoformat :: "int \<Rightarrow> string"
  int_of_str :: "string \<Rightarrow> int option"
  repr :: "json \<Rightarrow> string"

text \<open>
  The state of a run: the remote side, the requests handed to the transport (one per
  attempt), the calls of \<open>_req\<close> (method, path, payload; one per call, whatever the
  number of attempts), the arguments of \<open>time.sleep\<close>, and the lines printed on
  the two streams. \<open>sent\<close>, \<open>calls\<close> and \<open>slept\<close> are history variables.
\<close>

record 'w state =
  world :: 'w
  sent :: "request list"
  calls :: "(string \<times> string \<times> json option) list"
  slept :: "real list"
  stdout :: "string list"
  stderr :: "string list"

type_synonym ('w, 'a) prog = "'w state \<Rightarrow> (abort + 'a) \<times> 'w state"

definition ret :: "'a \<Rightarrow> ('w, 'a) prog" where
  "ret x = (\<lambda>st. (Inr x, st))"

definition raise :: "abort \<Rightarrow> ('w, 'a) prog" where
  "raise a = (\<lambda>st. (Inl a, st))"

definition lift :: "abort + 'a \<Rightarrow> ('w, 'a) prog" where
  "lift r = (\<lambda>st. (r, st))"

definition bind :: "('w, 'a) prog \<Rightarrow> ('a \<Rightarrow> ('w, 'b) prog) \<Rightarrow> ('w, 'b) prog" where
  "bind m f = (\<lambda>st. case m st of (Inl a, st') \<Rightarrow> (Inl a, st') | (Inr x, st') \<Rightarrow> f x st')"

definition print_out :: "string \<Rightarrow> ('w, unit) prog" where
  "print_out line = (\<lambda>st. (Inr (), st\<lparr>stdout := stdout st @ [line]\<rparr>))"

definition print_err :: "string \<Rightarrow> ('w, unit) prog" where
  "print_err line = (\<lambda>st. (Inr (), st\<lparr>stderr := stderr st @ [line]\<rparr>))"

subsection \<open>\<open>_hdrs\<close>, \<open>_req\<close>, \<open>_die\<close>\<close>

definition hdrs :: "'w env \<Rightarrow> ('w, (string \<times> string) list) prog" where
  "hdrs env =
     (case token env of
        None \<Rightarrow>
          bind (print_err ''ERROR: SHORTCUT_TOKEN env var is required.'') (\<lambda>_. raise (Exit 2))
      | Some tok \<Rightarrow>
          if tok = [] then
            bind (print_err ''ERROR: SHORTCUT_TOKEN env var is required.'') (\<lambda>_. raise (Exit 2))
          else ret [(''Shortcut-Token'', tok), (''Content-Type'', ''application/json'')])"

definition retryable :: "int \<Rightarrow> bool" where
  "retryable code = (code \<in> set [429, 500, 502, 503, 504])"

definition backoff :: "nat \<Rightarrow> real" where
  "backoff attempt = min (2 ^ (attempt - 1) * (1 / 2)) 8"

text \<open>One call of the transport, recorded in \<open>sent\<close>.\<close>

definition send :: "'w env \<Rightarrow> request \<Rightarrow> ('w, response) prog" where
  "send env rq =
     (\<lambda>st. case http env (world st) rq of
        (Inl e, w) \<Rightarrow> (Inl (Uncaught e), st\<lparr>world := w, sent := sent st @ [rq]\<rparr>)
      | (Inr resp, w) \<Rightarrow> (Inr resp, st\<lparr>world := w, sent := sent st @ [rq]\<rparr>))"

definition sleep :: "real \<Rightarrow> ('w, unit) prog" where
  "sleep d = (\<lambda>st. (Inr (), st\<lparr>slept := slept st @ [d]\<rparr>))"

text \<open>
  The loop \<open>for attempt in range(1, retry+1)\<close>: \<open>attempt\<close> is the current value,
  \<open>left\<close> the number of values still to come, \<open>prev\<close> the variable \<open>resp\<close>
  (unbound before the first attempt).
\<close>

fun req_loop ::
  "'w env \<Rightarrow> string \<Rightarrow> string \<Rightarrow> json option \<Rightarrow> nat \<Rightarrow> nat \<Rightarrow> response option \<Rightarrow> ('w, response) prog"
where
  "req_loop env m u payload attempt 0 prev =
     (case prev of None \<Rightarrow> raise (Uncaught UnboundLocalError) | Some resp \<Rightarrow> ret resp)"
| "req_loop env m u payload attempt (Suc left) prev =
     bind (hdrs env) (\<lambda>h.
     bind (send env \<lparr>rq_method = m, rq_url = u, rq_headers = h, rq_json = payload\<rparr>) (\<lambda>resp.
       if retryable (status_code resp) then
         bind (sleep (backoff attempt)) (\<lambda>_.
           req_loop env m u payload (Suc attempt) left (Some resp))
       else ret resp))"

definition req :: "'w env \<Rightarrow> string \<Rightarrow> string \<Rightarrow> json option \<Rightarrow> int \<Rightarrow> ('w, response) prog" where
  "req env m path payload retry =
     (\<lambda>st. req_loop env m (api_base env @ path) payload 1 (nat retry) None
              (st\<lparr>calls := calls st @ [(m, path, payload)]\<rparr>))"

definition die :: "'w env \<Rightarrow> response \<Rightarrow> string \<Rightarrow> ('w, 'a) prog" where
  "die env resp context =
     (let body = (case json_body resp of Some j \<Rightarrow> py_str (repr env) j | None \<Rightarrow> text_body resp)
      in bind (print_err (''ERROR during '' @ context @ '': HTTP '' @ str_int (status_code resp)
                            @ '' '' @ body))
           (\<lambda>_. raise (Exit 2)))"

text \<open>\<open>r.json()\<close>.\<close>

definition resp_json :: "response \<Rightarrow> abort + json" where
  "resp_json r = (case json_body r of None \<Rightarrow> Inl (Uncaught JSONDecodeError) | Some j \<Rightarrow> Inr j)"

subsection \<open>\<open>_iso_week_dates\<close>\<close>

text \<open>
  Dates are proleptic Gregorian ordinals (\<open>date.toordinal\<close>: 1 is 0001-01-01, a
  Monday; 3652059 is 9999-12-31), so \<open>weekday()\<close> is \<open>(ordinal + 6) mod 7\<close>. Date
  arithmetic raises \<open>OverflowError\<close> outside that range, and \<open>timedelta\<close> beyond
  999999999 days.
\<close>

definition weekday :: "int \<Rightarrow> int" where
  "weekday d = (d + 6) mod 7"

definition timedelta_days :: "int \<Rightarrow> abort + int" where
  "timedelta_days n =
     (if - 999999999 \<le> n \<and> n \<le> 999999999 then Inr n else Inl (Uncaught OverflowError))"

definition date_add :: "int \<Rightarrow> int \<Rightarrow> abort + int" where
  "date_add d n =
     (if 1 \<le> d + n \<and> d + n \<le> 3652059 then Inr (d + n) else Inl (Uncaught OverflowError))"

definition iso_week_dates :: "'w env \<Rightarrow> json \<Rightarrow> int \<Rightarrow> abort + (json \<times> json)" where
  "iso_week_dates env tzname iteration_length_days =
     (case today env tzname of
        Inl e \<Rightarrow> Inl (Uncaught e)
      | Inr now \<Rightarrow>
         (case date_add now (- weekday now) of
            Inl a \<Rightarrow> Inl a
          | Inr start \<Rightarrow>
             (case timedelta_days (iteration_length_days - 1) of
                Inl a \<Rightarrow> Inl a
              | Inr n \<Rightarrow>
                 (case date_add start n of
                    Inl a \<Rightarrow> Inl a
                  | Inr end_date \<Rightarrow>
                      Inr (JStr (isoformat env start), JStr (isoformat env end_date))))))"


section \<open>Entity helpers\<close>

text \<open>
  The scan of the find functions:
  \<open>for p in r.json(): if p.get("external_id") == external_id: return p\<close>, then
  \<open>return None\<close>.
\<close>

fun scan :: "json list \<Rightarrow> json \<Rightarrow> abort + json" where
  "scan [] external_id = Inr JNull"
| "scan (p # ps) external_id =
     (case dict_get p ''external_id'' JNull of
        Inl a \<Rightarrow> Inl a
      | Inr v \<Rightarrow> if py_eq v external_id then Inr p else scan ps external_id)"

definition scan_body :: "json \<Rightarrow> json \<Rightarrow> abort + json" where
  "scan_body j external_id =
     (case py_iter j of Inl a \<Rightarrow> Inl a | Inr ps \<Rightarrow> scan ps external_id)"

subsection \<open>Projects\<close>

text \<open>
  \<open>find_project_by_external_id\<close> lists the projects itself; the other entity types
  have a listing function of their own.
\<close>

definition find_project_by_external_id :: "'w env \<Rightarrow> json \<Rightarrow> ('w, json) prog" where
  "find_project_by_external_id env external_id =
     bind (req env ''GET'' ''/projects'' None 5) (\<lambda>r.
       if status_code r \<noteq> 200 then die env r ''list projects''
       else bind (lift (resp_json r)) (\<lambda>j. lift (scan_body j external_id)))"

definition create_project :: "'w env \<Rightarrow> json \<Rightarrow> ('w, json) prog" where
  "create_project env payload =
     bind (req env ''POST'' ''/projects'' (Some payload) 5) (\<lambda>r.
       if status_code r \<notin> set [200, 201] then die env r ''create project''
       else lift (resp_json r))"

definition upsert_project :: "'w env \<Rightarrow> json \<Rightarrow> ('w, json) prog" where
  "upsert_project env p =
     bind (lift (subscript p ''external_id'')) (\<lambda>ext.
     bind (find_project_by_external_id env ext) (\<lambda>found.
       if truthy found then ret found
       else
         bind (lift (subscript p ''name'')) (\<lambda>name.
         bind (lift (dict_get p ''description'' (JStr []))) (\<lambda>description.
         bind (lift (subscript p ''external_id'')) (\<lambda>external_id.
           create_project env
             (JObj [(''name'', name), (''description'', description),
                    (''external_id'', external_id)]))))))"

subsection \<open>Milestones\<close>

definition get_milestones :: "'w env \<Rightarrow> ('w, json) prog" where
  "get_milestones env =
     bind (req env ''GET'' ''/milestones'' None 5) (\<lambda>r.
       if status_code r \<noteq> 200 then die env r ''list milestones''
       else lift (resp_json r))"

definition find_milestone_by_external_id :: "'w env \<Rightarrow> json \<Rightarrow> ('w, json) prog" where
  "find_milestone_by_external_id env external_id =
     bind (get_milestones env) (\<lambda>j. lift (scan_body j external_id))"

definition create_milestone :: "'w env \<Rightarrow> json \<Rightarrow> ('w, json) prog" where
  "create_milestone env payload =
     bind (req env ''POST'' ''/milestones'' (Some payload) 5) (\<lambda>r.
       if status_code r \<notin> set [200, 201] then die env r ''create milestone''
       else lift (resp_json r))"

definition update_milestone :: "'w env \<Rightarrow> json \<Rightarrow> json \<Rightarrow> ('w, json) prog" where
  "update_milestone env mid patch =
     bind (req env ''PUT'' (''/milestones/'' @ py_str (repr env) mid) (Some patch) 5) (\<lambda>r.
       if status_code r \<noteq> 200 then die env r ''update milestone''
       else lift (resp_json r))"

definition upsert_milestone :: "'w env \<Rightarrow> json \<Rightarrow> ('w, json) prog" where
  "upsert_milestone env m =
     bind (lift (subscript m ''external_id'')) (\<lambda>ext.
     bind (find_milestone_by_external_id env ext) (\<lambda>found.
     bind (lift (subscript m ''name'')) (\<lambda>name.
     bind (lift (dict_get m ''description'' (JStr []))) (\<lambda>description.
     bind (lift (dict_get m ''state'' (JStr ''to_do''))) (\<lambda>state.
     bind (lift (subscript m ''external_id'')) (\<lambda>external_id.
       let payload = JObj [(''name'', name), (''description'', description),
                           (''state'', state), (''external_id'', external_id)]
       in if truthy found then
            bind (lift (subscript found ''id'')) (\<lambda>mid. update_milestone env mid payload)
          else create_milestone env payload))))))"

subsection \<open>Epics\<close>

definition list_epics :: "'w env \<Rightarrow> ('w, json) prog" where
  "list_epics env =
     bind (req env ''GET'' ''/epics'' None 5) (\<lambda>r.
       if status_code r \<noteq> 200 then die env r ''list epics''
       else lift (resp_json r))"

definition find_epic_by_external_id :: "'w env \<Rightarrow> json \<Rightarrow> ('w, json) prog" where
  "find_epic_by_external_id env external_id =
     bind (list_epics env) (\<lambda>j. lift (scan_body j external_id))"

definition create_epic :: "'w env \<Rightarrow> json \<Rightarrow> ('w, json) prog" where
  "create_epic env payload =
     bind (req env ''POST'' ''/epics'' (Some payload) 5) (\<lambda>r.
       if status_code r \<notin> set [200, 201] then die env r ''create epic''
       else lift (resp_json r))"

definition update_epic :: "'w env \<Rightarrow> json \<Rightarrow> json \<Rightarrow> ('w, json) prog" where
  "update_epic env eid patch =
     bind (req env ''PUT'' (''/epics/'' @ py_str (repr env) eid) (Some patch) 5) (\<lambda>r.
       if status_code r \<noteq> 200 then die env r ''update epic''
       else lift (resp_json r))"

definition upsert_epic :: "'w env \<Rightarrow> json \<Rightarrow> json \<Rightarrow> ('w, json) prog" where
  "upsert_epic env e milestone_id =
     bind (lift (subscript e ''external_id'')) (\<lambda>ext.
     bind (find_epic_by_external_id env ext) (\<lambda>found.
     bind (lift (subscript e ''name'')) (\<lambda>name.
     bind (lift (dict_get e ''description'' (JStr []))) (\<lambda>description.
     bind (lift (dict_get e ''labels'' (JList []))) (\<lambda>labels.
     bind (lift (subscript e ''external_id'')) (\<lambda>external_id.
       let payload = JObj [(''name'', name), (''description'', description),
                           (''milestone_id'', milestone_id), (''labels'', labels),
                           (''external_id'', external_id)]
       in if truthy found then
            bind (lift (subscript found ''id'')) (\<lambda>eid. update_epic env eid payload)
          else create_epic env payload))))))"

subsection \<open>Iterations\<close>

definition list_iterations :: "'w env \<Rightarrow> ('w, json) prog" where
  "list_iterations env =
     bind (req env ''GET'' ''/iterations'' None 5) (\<lambda>r.
       if status_code r \<noteq> 200 then die env r ''list iterations''
       else lift (resp_json r))"

definition find_iteration_by_external_id :: "'w env \<Rightarrow> json \<Rightarrow> ('w, json) prog" where
  "find_iteration_by_external_id env external_id =
     bind (list_iterations env) (\<lambda>j. lift (scan_body j external_id))"

definition create_iteration :: "'w env \<Rightarrow> json \<Rightarrow> ('w, json) prog" where
  "create_iteration env payload =
     bind (req env ''POST'' ''/iterations'' (Some payload) 5) (\<lambda>r.
       if status_code r \<notin> set [200, 201] then die env r ''create iteration''
       else lift (resp_json r))"

definition update_iteration :: "'w env \<Rightarrow> json \<Rightarrow> json \<Rightarrow> ('w, json) prog" where
  "update_iteration env iid patch =
     bind (req env ''PUT'' (''/iterations/'' @ py_str (repr env) iid) (Some patch) 5) (\<lambda>r.
       if status_code r \<noteq> 200 then die env r ''update iteration''
       else lift (resp_json r))"

text \<open>\<open>{k:v for k,v in payload.items() if v}\<close>.\<close>

definition drop_falsy :: "(string \<times> json) list \<Rightarrow> (string \<times> json) list" where
  "drop_falsy kvs = filter (\<lambda>(k, v). truthy v) kvs"

definition upsert_iteration :: "'w env \<Rightarrow> json \<Rightarrow> ('w, json) prog" where
  "upsert_iteration env i =
     bind (lift (subscript i ''external_id'')) (\<lambda>ext.
     bind (find_iteration_by_external_id env ext) (\<lambda>found.
     bind (lift (subscript i ''name'')) (\<lambda>name.
     bind (lift (dict_get i ''start_date'' JNull)) (\<lambda>start_date.
     bind (lift (dict_get i ''end_date'' JNull)) (\<lambda>end_date.
     bind (lift (subscript i ''external_id'')) (\<lambda>external_id.
       let payload = JObj (drop_falsy [(''name'', name), (''start_date'', start_date),
                                       (''end_date'', end_date), (''external_id'', external_id)])
       in if truthy found then
            bind (lift (subscript found ''id'')) (\<lambda>iid. update_iteration env iid payload)
          else create_iteration env payload))))))"

subsection \<open>Stories and tasks\<close>

definition list_stories :: "'w env \<Rightarrow> ('w, json) prog" where
  "list_stories env =
     bind (req env ''GET'' ''/stories'' None 5) (\<lambda>r.
       if status_code r \<noteq> 200 then die env r ''list stories''
       else lift (resp_json r))"

definition find_story_by_external_id :: "'w env \<Rightarrow> json \<Rightarrow> ('w, json) prog" where
  "find_story_by_external_id env external_id =
     bind (list_stories env) (\<lambda>j. lift (scan_body j external_id))"

definition create_story :: "'w env \<Rightarrow> json \<Rightarrow> ('w, json) prog" where
  "create_story env payload =
     bind (req env ''POST'' ''/stories'' (Some payload) 5) (\<lambda>r.
       if status_code r \<notin> set [200, 201] then die env r ''create story''
       else lift (resp_json r))"

definition update_story :: "'w env \<Rightarrow> json \<Rightarrow> json \<Rightarrow> ('w, json) prog" where
  "update_story env story_id patch =
     bind (req env ''PUT'' (''/stories/'' @ py_str (repr env) story_id) (Some patch) 5) (\<lambda>r.
       if status_code r \<noteq> 200 then die env r ''update story''
       else lift (resp_json r))"

definition upsert_story :: "'w env \<Rightarrow> json \<Rightarrow> ('w, json) prog" where
  "upsert_story env s =
     bind (lift (subscript s ''external_id'')) (\<lambda>ext.
     bind (find_story_by_external_id env ext) (\<lambda>found.
       if truthy found then
         bind (lift (subscript found ''id'')) (\<lambda>story_id. update_story env story_id s)
       else create_story env s))"

definition create_task :: "'w env \<Rightarrow> json \<Rightarrow> ('w, json) prog" where
  "create_task env payload =
     bind (req env ''POST'' ''/tasks'' (Some payload) 5) (\<lambda>r.
       if status_code r \<notin> set [200, 201] then die env r ''create task''
       else lift (resp_json r))"


section \<open>Bootstrap orchestration\<close>

text \<open>The placeholder record \<open>{"id": 0}\<close> of a dry run.\<close>

definition placeholder :: json where
  "placeholder = JObj [(''id'', JInt 0)]"

subsection \<open>Projects\<close>

fun projects_loop :: "'w env \<Rightarrow> bool \<Rightarrow> json list \<Rightarrow> namemap \<Rightarrow> ('w, namemap) prog" where
  "projects_loop env dry_run [] name_to_project = ret name_to_project"
| "projects_loop env dry_run (p # ps) name_to_project =
     (if dry_run then
        bind (lift (subscript p ''name'')) (\<lambda>name.
        bind (lift (subscript p ''external_id'')) (\<lambda>ext.
        bind (print_out (''[dry-run] upsert project: '' @ py_str (repr env) name
                           @ '' ('' @ py_str (repr env) ext @ '')'')) (\<lambda>_.
        bind (lift (nm_set name_to_project name placeholder)) (\<lambda>m.
          projects_loop env dry_run ps m))))
      else
        bind (upsert_project env p) (\<lambda>proj.
        bind (lift (subscript p ''name'')) (\<lambda>name.
        bind (lift (nm_set name_to_project name proj)) (\<lambda>m.
        bind (lift (subscript proj ''name'')) (\<lambda>pname.
        bind (lift (subscript proj ''id'')) (\<lambda>pid.
        bind (print_out (''[ok] project: '' @ py_str (repr env) pname
                           @ '' id='' @ py_str (repr env) pid)) (\<lambda>_.
          projects_loop env dry_run ps m)))))))"

definition projects_stage :: "'w env \<Rightarrow> json \<Rightarrow> bool \<Rightarrow> ('w, namemap) prog" where
  "projects_stage env cfg dry_run =
     bind (lift (dict_get cfg ''projects'' (JList []))) (\<lambda>v.
     bind (lift (py_iter v)) (\<lambda>ps.
       projects_loop env dry_run ps []))"

subsection \<open>Milestone\<close>

definition milestone_stage :: "'w env \<Rightarrow> json \<Rightarrow> bool \<Rightarrow> ('w, json) prog" where
  "milestone_stage env cfg dry_run =
     bind (lift (subscript cfg ''milestone'')) (\<lambda>ms_cfg.
       if dry_run then
         bind (lift (subscript ms_cfg ''name'')) (\<lambda>name.
         bind (print_out (''[dry-run] upsert milestone: '' @ py_str (repr env) name)) (\<lambda>_.
           ret placeholder))
       else
         bind (upsert_milestone env ms_cfg) (\<lambda>milestone.
         bind (lift (subscript milestone ''name'')) (\<lambda>name.
         bind (lift (subscript milestone ''id'')) (\<lambda>mid.
         bind (print_out (''[ok] milestone: '' @ py_str (repr env) name
                            @ '' id='' @ py_str (repr env) mid)) (\<lambda>_.
           ret milestone)))))"

subsection \<open>Epics\<close>

fun epics_loop ::
  "'w env \<Rightarrow> bool \<Rightarrow> json \<Rightarrow> json list \<Rightarrow> namemap \<Rightarrow> ('w, namemap) prog" where
  "epics_loop env dry_run milestone [] name_to_epic = ret name_to_epic"
| "epics_loop env dry_run milestone (e # es) name_to_epic =
     bind (if dry_run then
             bind (lift (subscript e ''name'')) (\<lambda>name.
             bind (print_out (''[dry-run] upsert epic: '' @ py_str (repr env) name)) (\<lambda>_.
               ret placeholder))
           else
             bind (lift (subscript milestone ''id'')) (\<lambda>milestone_id.
             bind (upsert_epic env e milestone_id) (\<lambda>ep.
             bind (lift (subscript ep ''name'')) (\<lambda>name.
             bind (lift (subscript ep ''id'')) (\<lambda>eid.
             bind (print_out (''[ok] epic: '' @ py_str (repr env) name
                                @ '' id='' @ py_str (repr env) eid)) (\<lambda>_.
               ret ep)))))) (\<lambda>ep.
     bind (lift (subscript e ''name'')) (\<lambda>name.
     bind (lift (nm_set name_to_epic name ep)) (\<lambda>m.
       epics_loop env dry_run milestone es m)))"

definition epics_stage :: "'w env \<Rightarrow> json \<Rightarrow> bool \<Rightarrow> json \<Rightarrow> ('w, namemap) prog" where
  "epics_stage env cfg dry_run milestone =
     bind (lift (dict_get cfg ''epics'' (JList []))) (\<lambda>v.
     bind (lift (py_iter v)) (\<lambda>es.
       epics_loop env dry_run milestone es []))"

subsection \<open>Iteration\<close>

text \<open>
  The dates of the iteration: \<open>start\<close> and \<open>end\<close> as configured, or both computed
  when one of them is missing or falsy.
\<close>

definition iteration_dates :: "'w env \<Rightarrow> json \<Rightarrow> json \<Rightarrow> abort + (json \<times> json)" where
  "iteration_dates env cfg it_cfg =
     (case dict_get it_cfg ''start_date'' JNull of Inl a \<Rightarrow> Inl a | Inr start \<Rightarrow>
      case dict_get it_cfg ''end_date'' JNull of Inl a \<Rightarrow> Inl a | Inr end_date \<Rightarrow>
        if \<not> truthy start \<or> \<not> truthy end_date then
          (case dict_get cfg ''org'' (JObj []) of Inl a \<Rightarrow> Inl a | Inr org \<Rightarrow>
           case dict_get org ''timezone'' (JStr ''UTC'') of Inl a \<Rightarrow> Inl a | Inr tzname \<Rightarrow>
           case dict_get cfg ''org'' (JObj []) of Inl a \<Rightarrow> Inl a | Inr org' \<Rightarrow>
           case dict_get org' ''iteration_length_days'' (JInt 7) of Inl a \<Rightarrow> Inl a | Inr d \<Rightarrow>
           case py_int (int_of_str env) d of Inl a \<Rightarrow> Inl a | Inr days \<Rightarrow>
             iso_week_dates env tzname days)
        else Inr (start, end_date))"

definition iteration_payload :: "'w env \<Rightarrow> json \<Rightarrow> json \<Rightarrow> abort + json" where
  "iteration_payload env cfg it_cfg =
     (case iteration_dates env cfg it_cfg of Inl a \<Rightarrow> Inl a | Inr (start, end_date) \<Rightarrow>
      case subscript it_cfg ''name'' of Inl a \<Rightarrow> Inl a | Inr name \<Rightarrow>
      case subscript it_cfg ''external_id'' of Inl a \<Rightarrow> Inl a | Inr external_id \<Rightarrow>
        Inr (JObj [(''name'', name), (''start_date'', start), (''end_date'', end_date),
                   (''external_id'', external_id)]))"

definition iteration_stage :: "'w env \<Rightarrow> json \<Rightarrow> bool \<Rightarrow> ('w, json) prog" where
  "iteration_stage env cfg dry_run =
     bind (lift (dict_get cfg ''iteration'' (JObj []))) (\<lambda>it_cfg.
       if truthy it_cfg then
         bind (lift (iteration_payload env cfg it_cfg)) (\<lambda>it_payload.
           if dry_run then
             bind (lift (subscript it_payload ''name'')) (\<lambda>name.
             bind (lift (subscript it_payload ''start_date'')) (\<lambda>start.
             bind (lift (subscript it_payload ''end_date'')) (\<lambda>end_date.
             bind (print_out (''[dry-run] upsert iteration: '' @ py_str (repr env) name @ '' ''
                                @ py_str (repr env) start @ ''..'' @ py_str (repr env) end_date))
               (\<lambda>_. ret placeholder))))
           else
             bind (upsert_iteration env it_payload) (\<lambda>iteration.
             bind (lift (subscript iteration ''name'')) (\<lambda>name.
             bind (lift (subscript iteration ''id'')) (\<lambda>iid.
             bind (print_out (''[ok] iteration: '' @ py_str (repr env) name
                                @ '' id='' @ py_str (repr env) iid)) (\<lambda>_.
               ret iteration)))))
       else ret JNull)"

subsection \<open>Stories and tasks\<close>

definition task_external_id :: "'w env \<Rightarrow> json \<Rightarrow> nat \<Rightarrow> string" where
  "task_external_id env story_ext idx =
     ''beeai:task:'' @ py_str (repr env) story_ext @ '':'' @ str_int (int idx)"

text \<open>
  The loop \<open>for idx, t in enumerate(s.get("tasks", []), start=1)\<close>; \<open>idx\<close> is the
  index of the head of the list.
\<close>

fun tasks_loop :: "'w env \<Rightarrow> bool \<Rightarrow> json \<Rightarrow> json \<Rightarrow> nat \<Rightarrow> json list \<Rightarrow> ('w, unit) prog" where
  "tasks_loop env dry_run s story idx [] = ret ()"
| "tasks_loop env dry_run s story idx (t # ts) =
     bind (lift (subscript story ''id'')) (\<lambda>story_id.
     bind (lift (subscript s ''external_id'')) (\<lambda>ext.
       let task_payload = JObj [(''description'', t), (''story_id'', story_id),
                                (''external_id'', JStr (task_external_id env ext idx))]
       in bind (if dry_run then print_out (''[dry-run]   task: '' @ py_str (repr env) t)
                else
                  bind (create_task env task_payload) (\<lambda>task.
                  bind (lift (subscript task ''id'')) (\<lambda>tid.
                    print_out (''[ok]   task id='' @ py_str (repr env) tid @ '' - ''
                                 @ py_str (repr env) t)))) (\<lambda>_.
            tasks_loop env dry_run s story (Suc idx) ts)))"

definition story_payload :: "json \<Rightarrow> json \<Rightarrow> json \<Rightarrow> json \<Rightarrow> abort + json" where
  "story_payload s proj epic iteration =
     (case subscript s ''name'' of Inl a \<Rightarrow> Inl a | Inr name \<Rightarrow>
      case dict_get s ''description'' (JStr []) of Inl a \<Rightarrow> Inl a | Inr description \<Rightarrow>
      case dict_get s ''story_type'' (JStr ''feature'') of Inl a \<Rightarrow> Inl a | Inr story_type \<Rightarrow>
      case subscript proj ''id'' of Inl a \<Rightarrow> Inl a | Inr project_id \<Rightarrow>
      case subscript epic ''id'' of Inl a \<Rightarrow> Inl a | Inr epic_id \<Rightarrow>
      case dict_get s ''estimate'' (JInt 1) of Inl a \<Rightarrow> Inl a | Inr estimate \<Rightarrow>
      case dict_get s ''labels'' (JList []) of Inl a \<Rightarrow> Inl a | Inr labels \<Rightarrow>
      case subscript s ''external_id'' of Inl a \<Rightarrow> Inl a | Inr external_id \<Rightarrow>
        let payload = [(''name'', name), (''description'', description),
                       (''story_type'', story_type), (''project_id'', project_id),
                       (''epic_id'', epic_id), (''estimate'', estimate), (''labels'', labels),
                       (''external_id'', external_id)]
        in if truthy iteration then
             (case subscript iteration ''id'' of Inl a \<Rightarrow> Inl a | Inr iteration_id \<Rightarrow>
                Inr (JObj (dict_set payload ''iteration_id'' iteration_id)))
           else Inr (JObj payload))"

text \<open>
  The block \<open>if dry_run: story = {"id": 0} ... else: story = upsert_story(story_payload) ...\<close>
  of the loop over the stories; its value is the variable \<open>story\<close>.
\<close>

definition story_upsert :: "'w env \<Rightarrow> bool \<Rightarrow> json \<Rightarrow> json \<Rightarrow> ('w, json) prog" where
  "story_upsert env dry_run s payload =
     (if dry_run then
        bind (lift (subscript s ''name'')) (\<lambda>name.
        bind (lift (subscript s ''project'')) (\<lambda>pname.
        bind (lift (subscript s ''epic'')) (\<lambda>ename.
        bind (print_out (''[dry-run] upsert story: '' @ py_str (repr env) name
                           @ '' (proj '' @ [CHR 0x27] @ py_str (repr env) pname
                           @ [CHR 0x27] @ '', epic '' @ [CHR 0x27]
                           @ py_str (repr env) ename @ [CHR 0x27] @ '')'')) (\<lambda>_.
          ret placeholder))))
      else
        bind (upsert_story env payload) (\<lambda>story.
        bind (lift (subscript story ''name'')) (\<lambda>name.
        bind (lift (subscript story ''id'')) (\<lambda>sid.
        bind (print_out (''[ok] story: '' @ py_str (repr env) name
                           @ '' id='' @ py_str (repr env) sid)) (\<lambda>_.
          ret story)))))"

text \<open>One pass of the body of \<open>for s in cfg.get("stories", [])\<close>.\<close>

definition story_step ::
  "'w env \<Rightarrow> bool \<Rightarrow> namemap \<Rightarrow> namemap \<Rightarrow> json \<Rightarrow> json \<Rightarrow> ('w, unit) prog" where
  "story_step env dry_run name_to_project name_to_epic iteration s =
     bind (lift (subscript s ''project'')) (\<lambda>pname.
     bind (lift (nm_get name_to_project pname)) (\<lambda>proj.
     bind (lift (subscript s ''epic'')) (\<lambda>ename.
     bind (lift (nm_get name_to_epic ename)) (\<lambda>epic.
       if \<not> truthy proj \<or> \<not> truthy epic then
         bind (lift (subscript s ''name'')) (\<lambda>name.
         bind (print_err (''ERROR: Missing project or epic for story '' @ [CHR 0x27]
                            @ py_str (repr env) name @ [CHR 0x27])) (\<lambda>_.
           raise (Exit 2)))
       else
         bind (lift (story_payload s proj epic iteration)) (\<lambda>payload.
         bind (story_upsert env dry_run s payload) (\<lambda>story.
         bind (lift (dict_get s ''tasks'' (JList []))) (\<lambda>v.
         bind (lift (py_iter v)) (\<lambda>ts.
           tasks_loop env dry_run s story 1 ts))))))))"

fun stories_loop ::
  "'w env \<Rightarrow> bool \<Rightarrow> namemap \<Rightarrow> namemap \<Rightarrow> json \<Rightarrow> json list \<Rightarrow> ('w, unit) prog" where
  "stories_loop env dry_run name_to_project name_to_epic iteration [] = ret ()"
| "stories_loop env dry_run name_to_project name_to_epic iteration (s # ss) =
     bind (story_step env dry_run name_to_project name_to_epic iteration s) (\<lambda>_.
       stories_loop env dry_run name_to_project name_to_epic iteration ss)"

definition stories_stage ::
  "'w env \<Rightarrow> json \<Rightarrow> bool \<Rightarrow> namemap \<Rightarrow> namemap \<Rightarrow> json \<Rightarrow> ('w, unit) prog" where
  "stories_stage env cfg dry_run name_to_project name_to_epic iteration =
     bind (lift (dict_get cfg ''stories'' (JList []))) (\<lambda>v.
     bind (lift (py_iter v)) (\<lambda>ss.
       stories_loop env dry_run name_to_project name_to_epic iteration ss))"

subsection \<open>\<open>bootstrap\<close> and \<open>main\<close>\<close>

definition bootstrap :: "'w env \<Rightarrow> json \<Rightarrow> bool \<Rightarrow> ('w, unit) prog" where
  "bootstrap env cfg dry_run =
     bind (projects_stage env cfg dry_run) (\<lambda>name_to_project.
     bind (milestone_stage env cfg dry_run) (\<lambda>milestone.
     bind (epics_stage env cfg dry_run milestone) (\<lambda>name_to_epic.
     bind (iteration_stage env cfg dry_run) (\<lambda>iteration.
       stories_stage env cfg dry_run name_to_project name_to_epic iteration))))"

text \<open>
  The exit status of the process: 0 when \<open>main\<close> returns, the argument of
  \<open>sys.exit\<close>, and 1 when an exception reaches the top level. The command is one of
  \<open>bootstrap\<close> and \<open>dry-run\<close> (\<open>argparse\<close> refuses anything else).
\<close>

fun exit_status :: "abort + unit \<Rightarrow> int" where
  "exit_status (Inr u) = 0"
| "exit_status (Inl (Exit n)) = n"
| "exit_status (Inl (Uncaught e)) = 1"

definition main :: "'w env \<Rightarrow> json \<Rightarrow> string \<Rightarrow> 'w state \<Rightarrow> int \<times> 'w state" where
  "main env cfg command st =
     (case (if command = ''dry-run'' then bootstrap env cfg True st
            else bootstrap env cfg False st) of
        (r, st') \<Rightarrow> (exit_status r, st'))"


section \<open>Notions used to state the properties\<close>

text \<open>
  \<open>run_http env w rq n\<close>: what the remote side answers to \<open>n\<close> successive
  transmissions of the request \<open>rq\<close>, starting from \<open>w\<close>, and where it is left.
\<close>

fun run_http :: "'w env \<Rightarrow> 'w \<Rightarrow> request \<Rightarrow> nat \<Rightarrow> (pyexc + response) list \<times> 'w" where
  "run_http env w rq 0 = ([], w)"
| "run_http env w rq (Suc n) =
     (case http env w rq of (r, w') \<Rightarrow>
        (case run_http env w' rq n of (rs, w'') \<Rightarrow> (r # rs, w'')))"

definition has_token :: "'w env \<Rightarrow> string \<Rightarrow> bool" where
  "has_token env tok = (token env = Some tok \<and> tok \<noteq> [])"

text \<open>The request \<open>_req\<close> hands to the transport at each attempt.\<close>

definition the_request :: "'w env \<Rightarrow> string \<Rightarrow> string \<Rightarrow> string \<Rightarrow> json option \<Rightarrow> request" where
  "the_request env tok m path payload =
     \<lparr>rq_method = m, rq_url = api_base env @ path,
      rq_headers = [(''Shortcut-Token'', tok), (''Content-Type'', ''application/json'')],
      rq_json = payload\<rparr>"

text \<open>
  A remote side that answers from a script, whatever the request, and fails once the
  script is used up; an environment on it; the state a process starts in.
\<close>

definition scripted_http :: "response list \<Rightarrow> request \<Rightarrow> (pyexc + response) \<times> response list" where
  "scripted_http w rq = (case w of [] \<Rightarrow> (Inl RequestException, []) | r # rs \<Rightarrow> (Inr r, rs))"

definition demo_isoformat :: "int \<Rightarrow> string" where
  "demo_isoformat d =
     (if d = 738893 then ''2024-01-08'' else if d = 738899 then ''2024-01-14'' else ''other'')"

definition demo_env :: "string option \<Rightarrow> response list env" where
  "demo_env tok =
     \<lparr>token = tok, api_base = ''https://api.app.shortcut.com/api/v3'', http = scripted_http,
      today = (\<lambda>tzname. Inr 738895), isoformat = demo_isoformat,
      int_of_str = (\<lambda>s. None), repr = (\<lambda>v. ''_'')\<rparr>"

definition init :: "'w \<Rightarrow> 'w state" where
  "init w = \<lparr>world = w, sent = [], calls = [], slept = [], stdout = [], stderr = []\<rparr>"

definition status_only :: "int \<Rightarrow> response" where
  "status_only code = \<lparr>status_code = code, json_body = None, text_body = []\<rparr>"

text \<open>Example configurations and responses.\<close>

definition cfg_one_project :: json where
  "cfg_one_project =
     JObj [(''projects'', JList [JObj [(''name'', JStr ''Core''),
                                        (''external_id'', JStr ''beeai:project:core'')]])]"

definition cfg_iteration_undated :: json where
  "cfg_iteration_undated =
     JObj [(''org'', JObj [(''timezone'', JStr ''UTC''), (''iteration_length_days'', JInt 7)]),
           (''iteration'', JObj [(''name'', JStr ''Sprint''),
                                 (''external_id'', JStr ''beeai:iteration:1'')])]"

definition cfg_iteration_half_dated :: json where
  "cfg_iteration_half_dated =
     JObj [(''iteration'', JObj [(''name'', JStr ''Sprint''),
                                 (''start_date'', JStr ''2030-06-05''),
                                 (''external_id'', JStr ''beeai:iteration:1'')])]"

text \<open>A dictionary without the keys \<open>start_date\<close> and \<open>end_date\<close>.\<close>

definition without_dates :: "(string \<times> json) list \<Rightarrow> (string \<times> json) list" where
  "without_dates kvs = filter (\<lambda>(k, v). k \<noteq> ''start_date'' \<and> k \<noteq> ''end_date'') kvs"


subsection \<open>Calls made by a run\<close>

text \<open>
  A call of \<open>_req\<close>: method, path and payload. \<open>appends P m\<close>: whatever the state it
  starts in and however it ends, \<open>m\<close> only adds calls to the history, all of them
  with the property \<open>P\<close>. \<open>new_calls st st'\<close> are the calls made between two states.
\<close>

type_synonym call = "string \<times> string \<times> json option"

definition appends :: "(call \<Rightarrow> bool) \<Rightarrow> ('w, 'a) prog \<Rightarrow> bool" where
  "appends P m = (\<forall>st. \<exists>cs. calls (snd (m st)) = calls st @ cs \<and> list_all P cs)"

definition new_calls :: "'w state \<Rightarrow> 'w state \<Rightarrow> call list" where
  "new_calls st st' = drop (length (calls st)) (calls st')"

text \<open>
  Calls on the task collection: a path that starts with \<open>/tasks\<close>. \<open>task_post_only\<close>
  holds of a call unless it lists or updates tasks.
\<close>

definition no_task_call :: "call \<Rightarrow> bool" where
  "no_task_call c = (case c of (m, path, payload) \<Rightarrow> take 6 path \<noteq> ''/tasks'')"

definition task_post_only :: "call \<Rightarrow> bool" where
  "task_post_only c =
     (case c of (m, path, payload) \<Rightarrow> take 6 path = ''/tasks'' \<longrightarrow> m = ''POST'' \<and> path = ''/tasks'')"

text \<open>
  The call that creates the task \<open>t\<close> at position \<open>idx\<close>; the description and
  external id of a created task, read back from such a call; the creations in a
  history.
\<close>

definition task_call :: "'w env \<Rightarrow> json \<Rightarrow> json \<Rightarrow> nat \<times> json \<Rightarrow> call" where
  "task_call env story_id ext it =
     (case it of (idx, t) \<Rightarrow>
        (''POST'', ''/tasks'',
         Some (JObj [(''description'', t), (''story_id'', story_id),
                     (''external_id'', JStr (task_external_id env ext idx))])))"

fun task_of_call :: "call \<Rightarrow> (json \<times> json) option" where
  "task_of_call (m, path, payload) =
     (if m = ''POST'' \<and> path = ''/tasks'' then
        (case payload of
           Some (JObj kvs) \<Rightarrow>
             (case (map_of kvs ''description'', map_of kvs ''external_id'') of
                (Some d, Some e) \<Rightarrow> Some (d, e)
              | _ \<Rightarrow> None)
         | _ \<Rightarrow> None)
      else None)"

definition created_tasks :: "call list \<Rightarrow> (json \<times> json) list" where
  "created_tasks cs = List.map_filter task_of_call cs"

text \<open>
  What the configuration asks for: the list under a key (empty when the key is absent),
  the tasks of a story with their positions from \<open>idx\<close> on and their external ids, the
  tasks of all stories in order.
\<close>

definition cfg_list :: "json \<Rightarrow> string \<Rightarrow> json list" where
  "cfg_list d k =
     (case dict_get d k (JList []) of
        Inr v \<Rightarrow> (case py_iter v of Inr xs \<Rightarrow> xs | Inl a \<Rightarrow> [])
      | Inl a \<Rightarrow> [])"

definition numbered_tasks :: "'w env \<Rightarrow> json \<Rightarrow> nat \<Rightarrow> json list \<Rightarrow> (json \<times> json) list" where
  "numbered_tasks env ext idx ts =
     map (\<lambda>(i, t). (t, JStr (task_external_id env ext i))) (zip [idx ..< idx + length ts] ts)"

definition story_tasks :: "'w env \<Rightarrow> json \<Rightarrow> (json \<times> json) list" where
  "story_tasks env s =
     (case subscript s ''external_id'' of
        Inr ext \<Rightarrow> numbered_tasks env ext 1 (cfg_list s ''tasks'')
      | Inl a \<Rightarrow> [])"

definition configured_tasks :: "'w env \<Rightarrow> json \<Rightarrow> (json \<times> json) list" where
  "configured_tasks env cfg = concat (map (story_tasks env) (cfg_list cfg ''stories''))"

subsection \<open>A complete configuration and two scripted runs\<close>

definition ok_json :: "int \<Rightarrow> json \<Rightarrow> response" where
  "ok_json code j = \<lparr>status_code = code, json_body = Some j, text_body = []\<rparr>"

definition demo_cfg :: json where
  "demo_cfg = JObj [
     (''org'', JObj [(''timezone'', JStr ''UTC''), (''iteration_length_days'', JInt 7)]),
     (''projects'', JList [JObj [(''name'', JStr ''Core''),
                                  (''external_id'', JStr ''beeai:project:core'')]]),
     (''milestone'', JObj [(''name'', JStr ''M1''), (''external_id'', JStr ''beeai:milestone:m1'')]),
     (''epics'', JList [JObj [(''name'', JStr ''Epic A''), (''external_id'', JStr ''beeai:epic:a'')]]),
     (''iteration'', JObj [(''name'', JStr ''Sprint''), (''external_id'', JStr ''beeai:iteration:1'')]),
     (''stories'', JList [JObj [(''name'', JStr ''Story 1''), (''project'', JStr ''Core''),
                                 (''epic'', JStr ''Epic A''), (''external_id'', JStr ''story-1''),
                                 (''tasks'', JList [JStr ''write'', JStr ''test''])]])]"

definition remote :: "int \<Rightarrow> string \<Rightarrow> string \<Rightarrow> json" where
  "remote i name ext = JObj [(''id'', JInt i), (''name'', JStr name), (''external_id'', JStr ext)]"

definition first_run_script :: "response list" where
  "first_run_script =
     [ok_json 200 (JList []), ok_json 201 (remote 1 ''Core'' ''beeai:project:core''),
      ok_json 200 (JList []), ok_json 201 (remote 2 ''M1'' ''beeai:milestone:m1''),
      ok_json 200 (JList []), ok_json 201 (remote 3 ''Epic A'' ''beeai:epic:a''),
      ok_json 200 (JList []), ok_json 201 (remote 4 ''Sprint'' ''beeai:iteration:1''),
      ok_json 200 (JList []), ok_json 201 (remote 5 ''Story 1'' ''story-1''),
      ok_json 201 (remote 6 ''write'' ''beeai:task:story-1:1''),
      ok_json 201 (remote 7 ''test'' ''beeai:task:story-1:2'')]"

definition second_run_script :: "response list" where
  "second_run_script =
     [ok_json 200 (JList [remote 1 ''Core'' ''beeai:project:core'']),
      ok_json 200 (JList [remote 2 ''M1'' ''beeai:milestone:m1'']),
      ok_json 200 (remote 2 ''M1'' ''beeai:milestone:m1''),
      ok_json 200 (JList [remote 3 ''Epic A'' ''beeai:epic:a'']),
      ok_json 200 (remote 3 ''Epic A'' ''beeai:epic:a''),
      ok_json 200 (JList [remote 4 ''Sprint'' ''beeai:iteration:1'']),
      ok_json 200 (remote 4 ''Sprint'' ''beeai:iteration:1''),
      ok_json 200 (JList [remote 5 ''Story 1'' ''story-1'']),
      ok_json 200 (remote 5 ''Story 1'' ''story-1''),
      ok_json 201 (remote 8 ''write'' ''beeai:task:story-1:1''),
      ok_json 201 (remote 9 ''test'' ''beeai:task:story-1:2'')]"

text \<open>The states after a first and a second run of the complete configuration.\<close>

definition after_first_run :: "response list state" where
  "after_first_run =
     snd (bootstrap (demo_env (Some ''t'')) demo_cfg False
            (init (first_run_script @ second_run_script)))"

definition after_second_run :: "response list state" where
  "after_second_run = snd (bootstrap (demo_env (Some ''t'')) demo_cfg False after_first_run)"

text \<open>
  A project as configured, and the remote project with the same external id and other
  fields.
\<close>

definition remote_project :: json where
  "remote_project =
     JObj [(''id'', JInt 7), (''external_id'', JStr ''beeai:project:core''),
           (''name'', JStr ''Old name''), (''description'', JStr ''old text'')]"

definition desired_project :: json where
  "desired_project =
     JObj [(''name'', JStr ''Core''), (''description'', JStr ''new text''),
           (''external_id'', JStr ''beeai:project:core'')]"

text \<open>
  A configuration whose second story names a project that is not configured, the
  responses of a remote side that holds nothing yet, and the payload of the first story.
\<close>

definition cfg_second_story_unresolved :: json where
  "cfg_second_story_unresolved = JObj [
     (''projects'', JList [JObj [(''name'', JStr ''Core''),
                                  (''external_id'', JStr ''beeai:project:core'')]]),
     (''milestone'', JObj [(''name'', JStr ''M1''), (''external_id'', JStr ''beeai:milestone:m1'')]),
     (''epics'', JList [JObj [(''name'', JStr ''Epic A''), (''external_id'', JStr ''beeai:epic:a'')]]),
     (''stories'', JList [
        JObj [(''name'', JStr ''Story 1''), (''project'', JStr ''Core''),
              (''epic'', JStr ''Epic A''), (''external_id'', JStr ''story-1'')],
        JObj [(''name'', JStr ''Story 2''), (''project'', JStr ''Nope''),
              (''epic'', JStr ''Epic A''), (''external_id'', JStr ''story-2'')]])]"

definition one_story_script :: "response list" where
  "one_story_script =
     [ok_json 200 (JList []), ok_json 201 (remote 1 ''Core'' ''beeai:project:core''),
      ok_json 200 (JList []), ok_json 201 (remote 2 ''M1'' ''beeai:milestone:m1''),
      ok_json 200 (JList []), ok_json 201 (remote 3 ''Epic A'' ''beeai:epic:a''),
      ok_json 200 (JList []), ok_json 201 (remote 5 ''Story 1'' ''story-1'')]"

definition story_1_payload :: json where
  "story_1_payload =
     JObj [(''name'', JStr ''Story 1''), (''description'', JStr []),
           (''story_type'', JStr ''feature''), (''project_id'', JInt 1), (''epic_id'', JInt 3),
           (''estimate'', JInt 1), (''labels'', JList []), (''external_id'', JStr ''story-1'')]"

subsection \<open>Dry runs\<close>

text \<open>
  \<open>silent m\<close>: \<open>m\<close> leaves the remote side alone, sends nothing, calls \<open>_req\<close> for
  nothing and does not sleep.
\<close>

definition silent :: "('w, 'a) prog \<Rightarrow> bool" where
  "silent m =
     (\<forall>st. world (snd (m st)) = world st \<and> sent (snd (m st)) = sent st
         \<and> calls (snd (m st)) = calls st \<and> slept (snd (m st)) = slept st)"

text \<open>
  The lines a dry run is to print for a configuration, entity by entity: one line for
  each project, for the milestone, for each epic, for the iteration when there is one,
  and for each story, the line of a story being followed by one indented line for each
  of its tasks. \<open>field d k\<close> is \<open>d[k]\<close> where it exists.
\<close>

definition field :: "json \<Rightarrow> string \<Rightarrow> json" where
  "field d k = (case subscript d k of Inr v \<Rightarrow> v | Inl a \<Rightarrow> JNull)"

definition dry_project_line :: "'w env \<Rightarrow> json \<Rightarrow> string" where
  "dry_project_line env p =
     ''[dry-run] upsert project: '' @ py_str (repr env) (field p ''name'')
       @ '' ('' @ py_str (repr env) (field p ''external_id'') @ '')''"

definition dry_milestone_line :: "'w env \<Rightarrow> json \<Rightarrow> string" where
  "dry_milestone_line env cfg =
     ''[dry-run] upsert milestone: '' @ py_str (repr env) (field (field cfg ''milestone'') ''name'')"

definition dry_epic_line :: "'w env \<Rightarrow> json \<Rightarrow> string" where
  "dry_epic_line env e = ''[dry-run] upsert epic: '' @ py_str (repr env) (field e ''name'')"

definition dry_iteration_lines :: "'w env \<Rightarrow> json \<Rightarrow> string list" where
  "dry_iteration_lines env cfg =
     (case dict_get cfg ''iteration'' (JObj []) of
        Inr it_cfg \<Rightarrow>
          (if truthy it_cfg then
             (case iteration_payload env cfg it_cfg of
                Inr p \<Rightarrow>
                  [''[dry-run] upsert iteration: '' @ py_str (repr env) (field p ''name'') @ '' ''
                     @ py_str (repr env) (field p ''start_date'') @ ''..''
                     @ py_str (repr env) (field p ''end_date'')]
              | Inl a \<Rightarrow> [])
           else [])
      | Inl a \<Rightarrow> [])"

definition dry_task_line :: "'w env \<Rightarrow> json \<Rightarrow> string" where
  "dry_task_line env t = ''[dry-run]   task: '' @ py_str (repr env) t"

definition dry_story_lines :: "'w env \<Rightarrow> json \<Rightarrow> string list" where
  "dry_story_lines env s =
     (''[dry-run] upsert story: '' @ py_str (repr env) (field s ''name'')
        @ '' (proj '' @ [CHR 0x27] @ py_str (repr env) (field s ''project'')
        @ [CHR 0x27] @ '', epic '' @ [CHR 0x27]
        @ py_str (repr env) (field s ''epic'') @ [CHR 0x27] @ '')'')
     # map (dry_task_line env) (cfg_list s ''tasks'')"

definition dry_output :: "'w env \<Rightarrow> json \<Rightarrow> string list" where
  "dry_output env cfg =
     map (dry_project_line env) (cfg_list cfg ''projects'')
     @ [dry_milestone_line env cfg]
     @ map (dry_epic_line env) (cfg_list cfg ''epics'')
     @ dry_iteration_lines env cfg
     @ concat (map (dry_story_lines env) (cfg_list cfg ''stories''))"

text \<open>A name-keyed dictionary all of whose values are the placeholder record.\<close>

definition placeholders :: "namemap \<Rightarrow> bool" where
  "placeholders m = list_all (\<lambda>kv. snd kv = placeholder) m"

text \<open>The lines of a dry run of the complete configuration.\<close>

definition demo_dry_lines :: "string list" where
  "demo_dry_lines =
     [''[dry-run] upsert project: Core (beeai:project:core)'',
      ''[dry-run] upsert milestone: M1'',
      ''[dry-run] upsert epic: Epic A'',
      ''[dry-run] upsert iteration: Sprint 2024-01-08..2024-01-14'',
      ''[dry-run] upsert story: Story 1 (proj '' @ [CHR 0x27] @ ''Core'' @ [CHR 0x27]
        @ '', epic '' @ [CHR 0x27] @ ''Epic A'' @ [CHR 0x27] @ '')'',
      ''[dry-run]   task: write'',
      ''[dry-run]   task: test'']"

section \<open>Properties of the transport\<close>

lemma hdrs_ok:
  "has_token env tok \<Longrightarrow>
   hdrs env st = (Inr [(''Shortcut-Token'', tok), (''Content-Type'', ''application/json'')], st)"
  by (simp add: hdrs_def has_token_def ret_def)

lemma req_loop_retry:
  assumes "has_token env tok"
    and "http env (world st) \<lparr>rq_method = m, rq_url = u,
      rq_headers = [(''Shortcut-Token'', tok), (''Content-Type'', ''application/json'')],
      rq_json = payload\<rparr> = (Inr r, w')"
    and "retryable (status_code r)"
  shows "req_loop env m u payload a (Suc left) prev st =
     req_loop env m u payload (Suc a) left (Some r)
       (st\<lparr>world := w', sent := sent st @ [\<lparr>rq_method = m, rq_url = u,
      rq_headers = [(''Shortcut-Token'', tok), (''Content-Type'', ''application/json'')],
      rq_json = payload\<rparr>], slept := slept st @ [backoff a]\<rparr>)"
  using assms by (simp add: bind_def hdrs_ok send_def sleep_def)

lemma req_loop_done:
  assumes "has_token env tok"
    and "http env (world st) \<lparr>rq_method = m, rq_url = u,
      rq_headers = [(''Shortcut-Token'', tok), (''Content-Type'', ''application/json'')],
      rq_json = payload\<rparr> = (Inr r, w')"
    and "\<not> retryable (status_code r)"
  shows "req_loop env m u payload a (Suc left) prev st =
     (Inr r, st\<lparr>world := w', sent := sent st @ [\<lparr>rq_method = m, rq_url = u,
      rq_headers = [(''Shortcut-Token'', tok), (''Content-Type'', ''application/json'')],
      rq_json = payload\<rparr>]\<rparr>)"
  using assms by (simp add: bind_def hdrs_ok send_def ret_def)

lemma req_loop_run:
  assumes tok: "has_token env tok"
  shows "run_http env (world st) rq (length rs) = (map Inr rs, w') \<Longrightarrow>
    rq = \<lparr>rq_method = m, rq_url = u,
      rq_headers = [(''Shortcut-Token'', tok), (''Content-Type'', ''application/json'')],
      rq_json = payload\<rparr> \<Longrightarrow>
    rs \<noteq> [] \<Longrightarrow> length rs \<le> left \<Longrightarrow>
    \<forall>r \<in> set (butlast rs). retryable (status_code r) \<Longrightarrow>
    length rs = left \<or> \<not> retryable (status_code (last rs)) \<Longrightarrow>
    req_loop env m u payload a left prev st =
      (Inr (last rs),
       st\<lparr>world := w', sent := sent st @ replicate (length rs) rq,
          slept := slept st
            @ map backoff [a ..< a + length (filter (\<lambda>r. retryable (status_code r)) rs)]\<rparr>)"
proof (induction rs arbitrary: st a left prev)
  case Nil
  then show ?case by simp
next
  case (Cons r rs)
  then obtain left' where left: "left = Suc left'" by (cases left) auto
  obtain w1 where h: "http env (world st) rq = (Inr r, w1)"
    and rest: "run_http env w1 rq (length rs) = (map Inr rs, w')"
    using Cons.prems(1) by (auto split: prod.splits)
  show ?case
  proof (cases "rs = []")
    case True
    with rest have w: "w' = w1" by simp
    show ?thesis
    proof (cases "retryable (status_code r)")
      case False
      show ?thesis unfolding left
        using req_loop_done[OF tok h[unfolded Cons.prems(2)] False, of a left' prev]
          True w Cons.prems(2) False
        by simp
    next
      case rt: True
      with Cons.prems True left have l0: "left' = 0" by auto
      show ?thesis unfolding left
        using req_loop_retry[OF tok h[unfolded Cons.prems(2)] rt, of a left' prev]
          True w Cons.prems(2) rt l0
        by (simp add: ret_def)
    qed
  next
    case False
    then have rt: "retryable (status_code r)" using Cons.prems(5) by auto
    let ?st1 = "st\<lparr>world := w1, sent := sent st @ [rq], slept := slept st @ [backoff a]\<rparr>"
    have IH: "req_loop env m u payload (Suc a) left' (Some r) ?st1 =
      (Inr (last rs),
       ?st1\<lparr>world := w', sent := sent ?st1 @ replicate (length rs) rq,
          slept := slept ?st1 @ map backoff
            [Suc a ..< Suc a + length (filter (\<lambda>r. retryable (status_code r)) rs)]\<rparr>)"
      using Cons.prems False left rest
      by (intro Cons.IH) auto
    have up: "[a ..< Suc (a + k)] = a # [Suc a ..< Suc (a + k)]" for k
      by (simp add: upt_conv_Cons)
    show ?thesis unfolding left
      using req_loop_retry[OF tok h[unfolded Cons.prems(2)] rt, of a left' prev]
        IH False rt Cons.prems(2)
      by (simp add: up del: upt_Suc)
  qed
qed

text \<open>
  C5. With a token set, let the remote side answer the successive transmissions of one
  request with the responses \<open>rs\<close> (at least one, at most five), every response
  but the last with a status in 429, 500, 502, 503, 504, and the last with another
  status unless it is the fifth. Then \<open>_req\<close> makes exactly \<open>length rs\<close> attempts,
  all with the same request, and returns the last response: a status outside the set is
  returned at once, and the fifth response is returned whatever its status. After the
  attempt number \<open>k\<close> that got a retryable status it sleeps
  \<open>min (2 ^ (k - 1) * 0.5) 8\<close> seconds, that is 0.5, 1, 2, 4 and (after a fifth such
  attempt, before returning) 8 seconds.
\<close>

theorem req_retry_policy:
  assumes "has_token env tok"
    and "run_http env (world st) (the_request env tok m path payload) (length rs)
           = (map Inr rs, w')"
    and "rs \<noteq> []" and "length rs \<le> 5"
    and "\<forall>r \<in> set (butlast rs). retryable (status_code r)"
    and "length rs = 5 \<or> \<not> retryable (status_code (last rs))"
  shows "req env m path payload 5 st =
      (Inr (last rs),
       st\<lparr>world := w',
          calls := calls st @ [(m, path, payload)],
          sent := sent st @ replicate (length rs) (the_request env tok m path payload),
          slept := slept st
            @ map backoff [1 ..< Suc (length (filter (\<lambda>r. retryable (status_code r)) rs))]\<rparr>)
    \<and> (\<forall>code. retryable code \<longleftrightarrow> code \<in> {429, 500, 502, 503, 504})
    \<and> (\<forall>k. backoff k = min (2 ^ (k - 1) * (1 / 2)) 8)
    \<and> map backoff [1, 2, 3, 4, 5] = [1 / 2, 1, 2, 4, 8]"
proof -
  let ?st0 = "st\<lparr>calls := calls st @ [(m, path, payload)]\<rparr>"
  have "req_loop env m (api_base env @ path) payload 1 5 None ?st0 =
      (Inr (last rs),
       ?st0\<lparr>world := w',
          sent := sent ?st0 @ replicate (length rs) (the_request env tok m path payload),
          slept := slept ?st0
            @ map backoff [1 ..< 1 + length (filter (\<lambda>r. retryable (status_code r)) rs)]\<rparr>)"
    using assms by (intro req_loop_run[OF assms(1)]) (auto simp: the_request_def)
  then have "req env m path payload 5 st =
      (Inr (last rs),
       st\<lparr>world := w',
          calls := calls st @ [(m, path, payload)],
          sent := sent st @ replicate (length rs) (the_request env tok m path payload),
          slept := slept st
            @ map backoff [1 ..< Suc (length (filter (\<lambda>r. retryable (status_code r)) rs))]\<rparr>)"
    by (simp add: req_def)
  moreover have "\<forall>code. retryable code \<longleftrightarrow> code \<in> {429, 500, 502, 503, 504}"
    by (simp add: retryable_def)
  moreover have "\<forall>k. backoff k = min (2 ^ (k - 1) * (1 / 2)) 8"
    by (simp add: backoff_def)
  moreover have "map backoff [1, 2, 3, 4, 5] = [1 / 2, 1, 2, 4, 8]"
    by (simp add: backoff_def)
  ultimately show ?thesis by blast
qed

text \<open>
  The responses 503, 503, 200 give three attempts and the third response, after sleeps
  of 0.5 and 1 second; five responses 500 give five attempts and the fifth response.
\<close>

theorem req_retry_policy_witness:
  "req (demo_env (Some ''t'')) ''GET'' ''/projects'' None 5
     (init [status_only 503, status_only 503, status_only 200]) =
     (Inr (status_only 200),
      (init [])\<lparr>calls := [(''GET'', ''/projects'', None)],
        sent := replicate 3 (the_request (demo_env (Some ''t'')) ''t'' ''GET'' ''/projects'' None),
        slept := [1 / 2, 1]\<rparr>)
   \<and> req (demo_env (Some ''t'')) ''GET'' ''/projects'' None 5
     (init (replicate 5 (status_only 500))) =
     (Inr (status_only 500),
      (init [])\<lparr>calls := [(''GET'', ''/projects'', None)],
        sent := replicate 5 (the_request (demo_env (Some ''t'')) ''t'' ''GET'' ''/projects'' None),
        slept := [1 / 2, 1, 2, 4, 8]\<rparr>)"
proof -
  have tok: "has_token (demo_env (Some ''t'')) ''t''"
    by (simp add: has_token_def demo_env_def)
  have a: "run_http (demo_env (Some ''t''))
      (world (init [status_only 503, status_only 503, status_only 200]))
      (the_request (demo_env (Some ''t'')) ''t'' ''GET'' ''/projects'' None)
      (length [status_only 503, status_only 503, status_only 200])
      = (map Inr [status_only 503, status_only 503, status_only 200], [])"
    by (simp add: init_def demo_env_def scripted_http_def)
  have b: "run_http (demo_env (Some ''t''))
      (world (init (replicate 5 (status_only 500))))
      (the_request (demo_env (Some ''t'')) ''t'' ''GET'' ''/projects'' None)
      (length (replicate 5 (status_only 500)))
      = (map Inr (replicate 5 (status_only 500)), [])"
    by (simp add: init_def demo_env_def scripted_http_def numeral_eq_Suc)
  have r: "retryable 503" "retryable 500" "\<not> retryable 200"
    by (simp_all add: retryable_def)
  have bk: "backoff (Suc 0) = 1 / 2" "backoff 2 = 1" "backoff 3 = 2" "backoff 4 = 4"
    "backoff 5 = 8"
    by (simp_all add: backoff_def)
  have up: "[1 ..< Suc 5] = [1, 2, 3, 4, 5]" "[1 ..< Suc 2] = [1, 2]"
    by (simp_all add: upt_rec)
  show ?thesis
    using req_retry_policy[OF tok a] req_retry_policy[OF tok b] r bk
    by (simp add: status_only_def init_def up eval_nat_numeral)
qed


section \<open>Evaluation rules\<close>

lemmas prog_simps = bind_def ret_def raise_def lift_def print_out_def print_err_def
  send_def sleep_def hdrs_def die_def resp_json_def req_def

lemmas py_simps = subscript_def dict_get_def py_iter_def py_str_def scan_body_def
  nm_set_def nm_get_def py_int_def

section \<open>A configuration without a milestone\<close>

text \<open>
  C3, as stated, fails: \<open>cfg["milestone"]\<close> raises \<open>KeyError\<close>, which nothing
  catches, so the exit status is 1. Here an empty configuration under \<open>bootstrap\<close>, and
  a configuration with one project and no milestone under \<open>dry-run\<close>.
\<close>

theorem missing_milestone_counterexample:
  "main (demo_env None) (JObj []) ''bootstrap'' (init []) = (1, init [])
   \<and> main (demo_env None) cfg_one_project ''dry-run'' (init []) =
       (1, (init [])\<lparr>stdout := [''[dry-run] upsert project: Core (beeai:project:core)'']\<rparr>)"
  by (simp add: main_def bootstrap_def projects_stage_def milestone_stage_def prog_simps py_simps
      cfg_one_project_def init_def demo_env_def placeholder_def)

text \<open>
  C3, amended. If the configuration is a dictionary without the key \<open>milestone\<close>, then
  once the projects stage has completed the run ends with an uncaught \<open>KeyError\<close>, in
  the state the projects stage left (nothing is done for a milestone, an epic, an
  iteration or a story), and the exit status of the process is 1.
\<close>

theorem missing_milestone_uncaught:
  assumes "cfg = JObj kvs" and "map_of kvs ''milestone'' = None"
    and "projects_stage env cfg dry_run st = (Inr name_to_project, st1)"
  shows "bootstrap env cfg dry_run st = (Inl (Uncaught KeyError), st1)
    \<and> main env cfg (if dry_run then ''dry-run'' else ''bootstrap'') st = (1, st1)"
proof -
  have ms: "milestone_stage env cfg dry_run st1 = (Inl (Uncaught KeyError), st1)"
    using assms(1,2) by (simp add: milestone_stage_def bind_def lift_def subscript_def)
  have b: "bootstrap env cfg dry_run st = (Inl (Uncaught KeyError), st1)"
    using assms(3) ms by (simp add: bootstrap_def bind_def)
  then show ?thesis by (cases dry_run) (simp_all add: main_def)
qed

theorem missing_milestone_uncaught_witness:
  "bootstrap (demo_env None) cfg_one_project True (init []) =
     (Inl (Uncaught KeyError),
      (init [])\<lparr>stdout := [''[dry-run] upsert project: Core (beeai:project:core)'']\<rparr>)
   \<and> main (demo_env None) cfg_one_project ''dry-run'' (init []) =
     (1, (init [])\<lparr>stdout := [''[dry-run] upsert project: Core (beeai:project:core)'']\<rparr>)"
proof -
  have a: "cfg_one_project = JObj [(''projects'', JList [JObj [(''name'', JStr ''Core''),
                                        (''external_id'', JStr ''beeai:project:core'')]])]"
    by (simp add: cfg_one_project_def)
  have b: "map_of [(''projects'', JList [JObj [(''name'', JStr ''Core''),
             (''external_id'', JStr ''beeai:project:core'')]])] ''milestone'' = None"
    by simp
  have c: "projects_stage (demo_env None) cfg_one_project True (init []) =
    (Inr [(JStr ''Core'', placeholder)],
     (init [])\<lparr>stdout := [''[dry-run] upsert project: Core (beeai:project:core)'']\<rparr>)"
    by (simp add: projects_stage_def prog_simps py_simps cfg_one_project_def init_def
        demo_env_def)
  show ?thesis using missing_milestone_uncaught[OF a b c] by simp
qed

section \<open>The dates of the iteration\<close>

text \<open>
  C7. Let the configured iteration lack a start or an end date (or have a falsy one), let
  \<open>tzname\<close> be the configured timezone (default \<open>UTC\<close>), \<open>days\<close> the configured
  \<open>iteration_length_days\<close> (default 7) and \<open>now\<close> the current date in that timezone,
  all dates involved being dates the runtime can represent. Then the computed start is
  the Monday of the week of \<open>now\<close> (a date with weekday 0, at most six days before
  \<open>now\<close>) and the computed end is that Monday plus \<open>days - 1\<close> days; these are the
  dates of the iteration.
\<close>

theorem iteration_dates_iso_week:
  assumes "dict_get it_cfg ''start_date'' JNull = Inr start"
    and "dict_get it_cfg ''end_date'' JNull = Inr end_date"
    and "\<not> truthy start \<or> \<not> truthy end_date"
    and "dict_get cfg ''org'' (JObj []) = Inr org"
    and "dict_get org ''timezone'' (JStr ''UTC'') = Inr tzname"
    and "dict_get org ''iteration_length_days'' (JInt 7) = Inr d"
    and "py_int (int_of_str env) d = Inr days"
    and "today env tzname = Inr now"
    and "7 \<le> now" and "now \<le> 3652059"
    and "- 999999999 \<le> days - 1" and "days - 1 \<le> 999999999"
    and "1 \<le> now - weekday now + (days - 1)"
    and "now - weekday now + (days - 1) \<le> 3652059"
  shows "\<exists>monday.
      weekday monday = 0 \<and> monday \<le> now \<and> now < monday + 7
    \<and> iso_week_dates env tzname days =
        Inr (JStr (isoformat env monday), JStr (isoformat env (monday + (days - 1))))
    \<and> iteration_dates env cfg it_cfg = iso_week_dates env tzname days"
proof -
  let ?monday = "now - weekday now"
  have wd: "0 \<le> weekday now" "weekday now < 7" by (simp_all add: weekday_def)
  have m0: "weekday ?monday = 0"
    unfolding weekday_def by presburger
  have r1: "date_add now (- weekday now) = Inr ?monday"
    using wd assms(9,10) by (simp add: date_add_def)
  have r2: "timedelta_days (days - 1) = Inr (days - 1)"
    using assms(11,12) by (simp add: timedelta_days_def)
  have r3: "date_add ?monday (days - 1) = Inr (?monday + (days - 1))"
    using assms(13,14) by (simp add: date_add_def)
  have iso: "iso_week_dates env tzname days =
        Inr (JStr (isoformat env ?monday), JStr (isoformat env (?monday + (days - 1))))"
    using assms(8) r1 r2 r3 by (simp add: iso_week_dates_def)
  have it: "iteration_dates env cfg it_cfg = iso_week_dates env tzname days"
    using assms(1-7) by (auto simp add: iteration_dates_def)
  show ?thesis using wd m0 iso it by (intro exI[of _ ?monday]) simp
qed

text \<open>
  With timezone \<open>UTC\<close>, seven days and \<open>now\<close> the Wednesday 2024-01-10 (ordinal
  738895, weekday 2): the start is Monday 2024-01-08 and the end is 2024-01-14, six days
  later.
\<close>

theorem iteration_dates_iso_week_witness:
  "weekday 738895 = 2 \<and> weekday 738893 = 0
   \<and> iso_week_dates (demo_env None) (JStr ''UTC'') 7 =
        Inr (JStr ''2024-01-08'', JStr ''2024-01-14'')
   \<and> iteration_dates (demo_env None) cfg_iteration_undated
        (JObj [(''name'', JStr ''Sprint''), (''external_id'', JStr ''beeai:iteration:1'')])
      = Inr (JStr ''2024-01-08'', JStr ''2024-01-14'')"
proof -
  have "\<exists>monday. weekday monday = 0 \<and> monday \<le> 738895 \<and> 738895 < monday + 7
    \<and> iso_week_dates (demo_env None) (JStr ''UTC'') 7 =
        Inr (JStr (isoformat (demo_env None) monday),
             JStr (isoformat (demo_env None) (monday + (7 - 1))))
    \<and> iteration_dates (demo_env None) cfg_iteration_undated
        (JObj [(''name'', JStr ''Sprint''), (''external_id'', JStr ''beeai:iteration:1'')])
      = iso_week_dates (demo_env None) (JStr ''UTC'') 7"
    by (rule iteration_dates_iso_week[where start = JNull and end_date = JNull
          and org = "JObj [(''timezone'', JStr ''UTC''), (''iteration_length_days'', JInt 7)]"
          and d = "JInt 7"])
       (simp_all add: py_simps cfg_iteration_undated_def demo_env_def weekday_def)
  then obtain monday where m: "weekday monday = 0" "monday \<le> 738895" "738895 < monday + 7"
    and r: "iso_week_dates (demo_env None) (JStr ''UTC'') 7 =
        Inr (JStr (isoformat (demo_env None) monday),
             JStr (isoformat (demo_env None) (monday + (7 - 1))))"
      "iteration_dates (demo_env None) cfg_iteration_undated
        (JObj [(''name'', JStr ''Sprint''), (''external_id'', JStr ''beeai:iteration:1'')])
      = iso_week_dates (demo_env None) (JStr ''UTC'') 7"
    by blast
  from m have "monday = 738893" unfolding weekday_def by presburger
  with r show ?thesis
    by (simp add: demo_env_def demo_isoformat_def weekday_def)
qed


lemma map_of_filter_keep:
  "P k \<Longrightarrow> map_of (filter (\<lambda>(k', v). P k') kvs) k = map_of kvs k"
  by (induction kvs) auto

lemma map_of_filter_drop:
  "\<not> P k \<Longrightarrow> map_of (filter (\<lambda>(k', v). P k') kvs) k = None"
  by (induction kvs) auto

lemma iteration_dates_computed:
  assumes "dict_get it_cfg ''start_date'' JNull = Inr start"
    and "dict_get it_cfg ''end_date'' JNull = Inr end_date"
    and "\<not> truthy start \<or> \<not> truthy end_date"
    and "iteration_dates env cfg it_cfg = Inr (s, e)"
  shows "\<exists>tzname days. iso_week_dates env tzname days = Inr (s, e)"
  using assms by (auto simp add: iteration_dates_def split: sum.splits)

text \<open>
  C10. If the configured iteration has no truthy \<open>start_date\<close> or no truthy
  \<open>end_date\<close>, the payload of the iteration is the one of the same configuration
  with both keys removed: what was supplied is discarded. Both dates of the payload
  then come from one call of \<open>_iso_week_dates\<close>, none from the configuration.
\<close>

theorem iteration_partial_dates_discarded:
  assumes "dict_get (JObj kvs) ''start_date'' JNull = Inr start"
    and "dict_get (JObj kvs) ''end_date'' JNull = Inr end_date"
    and "\<not> truthy start \<or> \<not> truthy end_date"
  shows "iteration_payload env cfg (JObj kvs) = iteration_payload env cfg (JObj (without_dates kvs))
    \<and> (\<forall>payload. iteration_payload env cfg (JObj kvs) = Inr payload \<longrightarrow>
          (\<exists>tzname days s e. iso_week_dates env tzname days = Inr (s, e)
             \<and> subscript payload ''start_date'' = Inr s
             \<and> subscript payload ''end_date'' = Inr e))"
proof -
  have keep: "map_of (without_dates kvs) k = map_of kvs k"
    if "k \<noteq> ''start_date'' \<and> k \<noteq> ''end_date''" for k
    unfolding without_dates_def
    using that map_of_filter_keep[of "\<lambda>k. k \<noteq> ''start_date'' \<and> k \<noteq> ''end_date''" k kvs]
    by simp
  have drop: "map_of (without_dates kvs) ''start_date'' = None"
    "map_of (without_dates kvs) ''end_date'' = None"
    unfolding without_dates_def
    using map_of_filter_drop[of "\<lambda>k. k \<noteq> ''start_date'' \<and> k \<noteq> ''end_date''" _ kvs]
    by simp_all
  have d: "iteration_dates env cfg (JObj kvs) = iteration_dates env cfg (JObj (without_dates kvs))"
    using assms drop by (auto simp add: iteration_dates_def dict_get_def split: option.splits)
  have n: "subscript (JObj (without_dates kvs)) ''name'' = subscript (JObj kvs) ''name''"
    "subscript (JObj (without_dates kvs)) ''external_id'' = subscript (JObj kvs) ''external_id''"
    by (simp_all add: subscript_def keep)
  have 1: "iteration_payload env cfg (JObj kvs) = iteration_payload env cfg (JObj (without_dates kvs))"
    unfolding iteration_payload_def d n by (rule refl)
  have 2: "\<exists>tzname days s e. iso_week_dates env tzname days = Inr (s, e)
             \<and> subscript payload ''start_date'' = Inr s
             \<and> subscript payload ''end_date'' = Inr e"
    if p: "iteration_payload env cfg (JObj kvs) = Inr payload" for payload
  proof -
    from p obtain s e where se: "iteration_dates env cfg (JObj kvs) = Inr (s, e)"
      by (auto simp add: iteration_payload_def split: sum.splits)
    from p se have sub: "subscript payload ''start_date'' = Inr s"
      "subscript payload ''end_date'' = Inr e"
      by (auto simp add: iteration_payload_def subscript_def split: sum.splits)
    from iteration_dates_computed[OF assms se] sub show ?thesis by blast
  qed
  from 1 2 show ?thesis by blast
qed

text \<open>
  An iteration configured with the start date 2030-06-05 and no end date gets the
  computed dates of the current week, as the iteration without any date does.
\<close>

theorem iteration_partial_dates_discarded_witness:
  "iteration_payload (demo_env None) cfg_iteration_half_dated
     (JObj [(''name'', JStr ''Sprint''), (''start_date'', JStr ''2030-06-05''),
            (''external_id'', JStr ''beeai:iteration:1'')])
   = Inr (JObj [(''name'', JStr ''Sprint''), (''start_date'', JStr ''2024-01-08''),
                (''end_date'', JStr ''2024-01-14''),
                (''external_id'', JStr ''beeai:iteration:1'')])
   \<and> iteration_payload (demo_env None) cfg_iteration_half_dated
     (JObj [(''name'', JStr ''Sprint''), (''start_date'', JStr ''2030-06-05''),
            (''external_id'', JStr ''beeai:iteration:1'')])
   = iteration_payload (demo_env None) cfg_iteration_half_dated
     (JObj [(''name'', JStr ''Sprint''), (''external_id'', JStr ''beeai:iteration:1'')])"
proof -
  have a: "dict_get (JObj [(''name'', JStr ''Sprint''), (''start_date'', JStr ''2030-06-05''),
            (''external_id'', JStr ''beeai:iteration:1'')]) ''start_date'' JNull
      = Inr (JStr ''2030-06-05'')"
    by (simp add: dict_get_def)
  have b: "dict_get (JObj [(''name'', JStr ''Sprint''), (''start_date'', JStr ''2030-06-05''),
            (''external_id'', JStr ''beeai:iteration:1'')]) ''end_date'' JNull = Inr JNull"
    by (simp add: dict_get_def)
  have c: "\<not> truthy (JStr ''2030-06-05'') \<or> \<not> truthy JNull" by simp
  have e: "iteration_payload (demo_env None) cfg_iteration_half_dated
     (JObj [(''name'', JStr ''Sprint''), (''external_id'', JStr ''beeai:iteration:1'')])
     = Inr (JObj [(''name'', JStr ''Sprint''), (''start_date'', JStr ''2024-01-08''),
                (''end_date'', JStr ''2024-01-14''),
                (''external_id'', JStr ''beeai:iteration:1'')])"
    by (simp add: iteration_payload_def iteration_dates_def iso_week_dates_def date_add_def
        timedelta_days_def weekday_def py_simps cfg_iteration_half_dated_def demo_env_def
        demo_isoformat_def)
  show ?thesis
    using iteration_partial_dates_discarded[OF a b c, of "demo_env None" cfg_iteration_half_dated] e
    by (simp add: without_dates_def)
qed


section \<open>The calls of a run\<close>

lemma bind_InrE:
  assumes "bind m f st = (Inr y, st')"
  obtains x st1 where "m st = (Inr x, st1)" and "f x st1 = (Inr y, st')"
  using assms by (auto simp add: bind_def split: prod.splits sum.splits)

lemma lift_InrD: "lift r st = (Inr x, st') \<Longrightarrow> r = Inr x \<and> st' = st"
  by (simp add: lift_def)

lemma req_loop_frame:
  "req_loop env m u payload a left prev st = (r, st') \<Longrightarrow>
   calls st' = calls st \<and> stdout st' = stdout st"
proof (induction left arbitrary: a prev st)
  case 0
  then show ?case by (auto simp add: ret_def raise_def split: option.splits)
next
  case (Suc left)
  show ?case
  proof (cases "hdrs env st")
    case (Pair h st1)
    have f1: "calls st1 = calls st \<and> stdout st1 = stdout st"
      using Pair by (auto simp add: hdrs_def bind_def print_err_def raise_def ret_def
          split: option.splits if_splits)
    show ?thesis
    proof (cases h)
      case (Inl a')
      with Pair Suc.prems f1 show ?thesis by (simp add: bind_def)
    next
      case (Inr hs)
      let ?rq = "\<lparr>rq_method = m, rq_url = u, rq_headers = hs, rq_json = payload\<rparr>"
      obtain x st2 where s: "send env ?rq st1 = (x, st2)" by (cases "send env ?rq st1")
      have f2: "calls st2 = calls st1 \<and> stdout st2 = stdout st1"
        using s by (auto simp add: send_def split: prod.splits sum.splits)
      show ?thesis
      proof (cases x)
        case (Inl a')
        with Pair Inr s Suc.prems f1 f2 show ?thesis by (simp add: bind_def)
      next
        case (Inr resp)
        show ?thesis
        proof (cases "retryable (status_code resp)")
          case True
          let ?st3 = "st2\<lparr>slept := slept st2 @ [backoff a]\<rparr>"
          have "req_loop env m u payload (Suc a) left (Some resp) ?st3 = (r, st')"
            using Pair \<open>h = Inr hs\<close> s Inr True Suc.prems by (simp add: bind_def sleep_def)
          from Suc.IH[OF this] f1 f2 show ?thesis by simp
        next
          case False
          with Pair \<open>h = Inr hs\<close> s Inr Suc.prems f1 f2 show ?thesis
            by (simp add: bind_def ret_def)
        qed
      qed
    qed
  qed
qed

lemma req_frame:
  assumes "req env m path payload n st = (r, st')"
  shows "calls st' = calls st @ [(m, path, payload)]" and "stdout st' = stdout st"
  using req_loop_frame[of env m "api_base env @ path" payload 1 "nat n" None
      "st\<lparr>calls := calls st @ [(m, path, payload)]\<rparr>" r st'] assms
  by (simp_all add: req_def)

lemma appends_ret [intro!]: "appends P (ret x)"
  by (simp add: appends_def ret_def)
lemma appends_raise [intro!]: "appends P (raise a)"
  by (simp add: appends_def raise_def)
lemma appends_lift [intro!]: "appends P (lift r)"
  by (simp add: appends_def lift_def)
lemma appends_print_out [intro!]: "appends P (print_out l)"
  by (simp add: appends_def print_out_def)
lemma appends_print_err [intro!]: "appends P (print_err l)"
  by (simp add: appends_def print_err_def)

lemma appends_bind [intro!]:
  assumes "appends P m" and "\<And>x. appends P (f x)"
  shows "appends P (bind m f)"
  unfolding appends_def
proof
  fix st
  obtain r st1 where m: "m st = (r, st1)" by (cases "m st")
  from assms(1) m obtain cs where cs: "calls st1 = calls st @ cs" "list_all P cs"
    unfolding appends_def by (metis snd_conv)
  show "\<exists>cs. calls (snd (bind m f st)) = calls st @ cs \<and> list_all P cs"
  proof (cases r)
    case (Inl a)
    with m cs show ?thesis by (auto simp add: bind_def)
  next
    case (Inr x)
    from assms(2)[of x] obtain cs' where
      cs': "calls (snd (f x st1)) = calls st1 @ cs'" "list_all P cs'"
      unfolding appends_def by blast
    with m cs Inr show ?thesis by (auto simp add: bind_def)
  qed
qed

lemma appends_if [intro!]:
  "(c \<Longrightarrow> appends P a) \<Longrightarrow> (\<not> c \<Longrightarrow> appends P b) \<Longrightarrow> appends P (if c then a else b)"
  by simp

lemma appends_die [intro!]: "appends P (die env r c)"
  unfolding die_def Let_def by (intro appends_bind appends_print_err appends_raise)

lemma appends_req [intro]: "P (m, path, payload) \<Longrightarrow> appends P (req env m path payload n)"
  unfolding appends_def
proof
  fix st
  assume p: "P (m, path, payload)"
  obtain r st' where r: "req env m path payload n st = (r, st')"
    by (cases "req env m path payload n st")
  from req_frame(1)[OF r] p r
  show "\<exists>cs. calls (snd (req env m path payload n st)) = calls st @ cs \<and> list_all P cs"
    by simp
qed

lemma appendsD:
  assumes "appends P m" and "m st = (r, st')"
  obtains cs where "calls st' = calls st @ cs" and "list_all P cs"
  using assms unfolding appends_def by (metis snd_conv)

lemmas appends_intros = appends_ret appends_raise appends_lift appends_print_out
  appends_print_err appends_bind appends_if appends_die appends_req

lemma appends_mono:
  assumes "appends P m" and "\<And>c. P c \<Longrightarrow> Q c"
  shows "appends Q m"
  unfolding appends_def
proof
  fix st
  from assms(1) obtain cs where "calls (snd (m st)) = calls st @ cs" "list_all P cs"
    unfolding appends_def by blast
  with assms(2) show "\<exists>cs. calls (snd (m st)) = calls st @ cs \<and> list_all Q cs"
    by (auto simp add: list_all_iff)
qed

lemma upsert_project_appends: "appends no_task_call (upsert_project env p)"
  unfolding upsert_project_def find_project_by_external_id_def create_project_def
  by (intro appends_intros) (simp_all add: no_task_call_def)

lemma upsert_milestone_appends: "appends no_task_call (upsert_milestone env m)"
  unfolding upsert_milestone_def find_milestone_by_external_id_def get_milestones_def
    create_milestone_def update_milestone_def Let_def
  by (intro appends_intros) (simp_all add: no_task_call_def)

lemma upsert_epic_appends: "appends no_task_call (upsert_epic env e mid)"
  unfolding upsert_epic_def find_epic_by_external_id_def list_epics_def
    create_epic_def update_epic_def Let_def
  by (intro appends_intros) (simp_all add: no_task_call_def)

lemma upsert_iteration_appends: "appends no_task_call (upsert_iteration env i)"
  unfolding upsert_iteration_def find_iteration_by_external_id_def list_iterations_def
    create_iteration_def update_iteration_def Let_def
  by (intro appends_intros) (simp_all add: no_task_call_def)

lemma upsert_story_appends: "appends no_task_call (upsert_story env s)"
  unfolding upsert_story_def find_story_by_external_id_def list_stories_def
    create_story_def update_story_def
  by (intro appends_intros) (simp_all add: no_task_call_def)

lemma projects_loop_appends: "appends no_task_call (projects_loop env dry_run ps m)"
proof (induction ps arbitrary: m)
  case Nil
  show ?case by (simp add: appends_ret)
next
  case (Cons p ps)
  show ?case
    unfolding projects_loop.simps
    by (intro appends_intros upsert_project_appends Cons.IH)
qed

lemma projects_stage_appends: "appends no_task_call (projects_stage env cfg dry_run)"
  unfolding projects_stage_def by (intro appends_intros projects_loop_appends)

lemma milestone_stage_appends: "appends no_task_call (milestone_stage env cfg dry_run)"
  unfolding milestone_stage_def by (intro appends_intros upsert_milestone_appends)

lemma epics_loop_appends: "appends no_task_call (epics_loop env dry_run ms es m)"
proof (induction es arbitrary: m)
  case Nil
  show ?case by (simp add: appends_ret)
next
  case (Cons e es)
  show ?case
    unfolding epics_loop.simps
    by (intro appends_intros upsert_epic_appends Cons.IH)
qed

lemma epics_stage_appends: "appends no_task_call (epics_stage env cfg dry_run ms)"
  unfolding epics_stage_def by (intro appends_intros epics_loop_appends)

lemma iteration_stage_appends: "appends no_task_call (iteration_stage env cfg dry_run)"
  unfolding iteration_stage_def by (intro appends_intros upsert_iteration_appends)

lemma story_upsert_appends: "appends no_task_call (story_upsert env dry_run s payload)"
  unfolding story_upsert_def by (intro appends_intros upsert_story_appends)

lemma create_task_appends: "appends task_post_only (create_task env payload)"
  unfolding create_task_def by (intro appends_intros) (simp_all add: task_post_only_def)

lemma tasks_loop_appends: "appends task_post_only (tasks_loop env dry_run s story idx ts)"
proof (induction ts arbitrary: idx)
  case Nil
  show ?case by (simp add: appends_ret)
next
  case (Cons t ts)
  show ?case
    unfolding tasks_loop.simps Let_def
    by (intro appends_intros create_task_appends Cons.IH)
qed

lemma no_task_call_post_only: "no_task_call c \<Longrightarrow> task_post_only c"
  by (auto simp add: no_task_call_def task_post_only_def)

lemma story_step_appends: "appends task_post_only (story_step env dry_run pm em it s)"
  unfolding story_step_def
  by (intro appends_intros tasks_loop_appends
      appends_mono[OF story_upsert_appends no_task_call_post_only])

lemma stories_loop_appends: "appends task_post_only (stories_loop env dry_run pm em it ss)"
proof (induction ss)
  case Nil
  show ?case by (simp add: appends_ret)
next
  case (Cons s ss)
  show ?case
    unfolding stories_loop.simps
    by (intro appends_intros story_step_appends Cons.IH)
qed

lemma bootstrap_appends: "appends task_post_only (bootstrap env cfg dry_run)"
  unfolding bootstrap_def stories_stage_def
  by (intro appends_intros stories_loop_appends
      appends_mono[OF projects_stage_appends no_task_call_post_only]
      appends_mono[OF milestone_stage_appends no_task_call_post_only]
      appends_mono[OF epics_stage_appends no_task_call_post_only]
      appends_mono[OF iteration_stage_appends no_task_call_post_only])

lemma created_tasks_append: "created_tasks (a @ b) = created_tasks a @ created_tasks b"
  unfolding created_tasks_def by (induction a) (simp_all add: List.map_filter_simps split: option.splits)

lemma created_tasks_none: "list_all no_task_call cs \<Longrightarrow> created_tasks cs = []"
  unfolding created_tasks_def
  by (induction cs) (auto simp add: List.map_filter_simps no_task_call_def)

lemma created_tasks_task_calls:
  "created_tasks (map (task_call env story_id ext) its) =
   map (\<lambda>(i, t). (t, JStr (task_external_id env ext i))) its"
  unfolding created_tasks_def
  by (induction its) (auto simp add: List.map_filter_simps task_call_def)

lemma die_frame: "die env resp c st = (r, st') \<Longrightarrow> calls st' = calls st \<and> stdout st' = stdout st"
  by (auto simp add: die_def Let_def bind_def print_err_def raise_def)

lemma create_task_frame:
  assumes "create_task env payload st = (r, st')"
  shows "calls st' = calls st @ [(''POST'', ''/tasks'', Some payload)]" and "stdout st' = stdout st"
proof -
  obtain x st1 where q: "req env ''POST'' ''/tasks'' (Some payload) 5 st = (x, st1)"
    by (cases "req env ''POST'' ''/tasks'' (Some payload) 5 st")
  note f = req_frame[OF q]
  have "calls st' = calls st1 \<and> stdout st' = stdout st1"
  proof (cases x)
    case (Inl a)
    with q assms show ?thesis by (simp add: create_task_def bind_def)
  next
    case (Inr resp)
    with q assms die_frame[of env resp "''create task''" st1 r st'] show ?thesis
      by (auto simp add: create_task_def bind_def lift_def split: if_splits)
  qed
  with f show "calls st' = calls st @ [(''POST'', ''/tasks'', Some payload)]"
    and "stdout st' = stdout st" by simp_all
qed

lemma tasks_loop_calls:
  assumes "subscript story ''id'' = Inr story_id" and "subscript s ''external_id'' = Inr ext"
  shows "tasks_loop env False s story idx ts st = (r, st') \<Longrightarrow>
    \<exists>k \<le> length ts.
      calls st' = calls st @ map (task_call env story_id ext) (zip [idx ..< idx + k] (take k ts))
      \<and> (r = Inr () \<longrightarrow> k = length ts)"
proof (induction ts arbitrary: idx st)
  case Nil
  then show ?case by (simp add: ret_def)
next
  case (Cons t ts)
  let ?payload = "JObj [(''description'', t), (''story_id'', story_id),
                     (''external_id'', JStr (task_external_id env ext idx))]"
  obtain x st1 where c: "create_task env ?payload st = (x, st1)"
    by (cases "create_task env ?payload st")
  note f = create_task_frame(1)[OF c]
  have one: "calls st1 = calls st @ map (task_call env story_id ext) (zip [idx ..< idx + 1] (take 1 (t # ts)))"
    using f by (simp add: task_call_def)
  show ?case
  proof (cases x)
    case (Inl a)
    with c Cons.prems assms have "r = Inl a" "st' = st1"
      by (simp_all add: bind_def lift_def Let_def)
    with one show ?thesis by (intro exI[of _ 1]) simp
  next
    case (Inr task)
    show ?thesis
    proof (cases "subscript task ''id''")
      case (Inl a)
      with c Cons.prems assms Inr have "r = Inl a" "st' = st1"
        by (simp_all add: bind_def lift_def Let_def)
      with one show ?thesis by (intro exI[of _ 1]) simp
    next
      case tid: (Inr tid)
      let ?st2 = "st1\<lparr>stdout := stdout st1 @ [''[ok]   task id='' @ py_str (repr env) tid
                     @ '' - '' @ py_str (repr env) t]\<rparr>"
      have rec: "tasks_loop env False s story (Suc idx) ts ?st2 = (r, st')"
        using c Cons.prems assms Inr tid by (simp add: bind_def lift_def Let_def print_out_def)
      from Cons.IH[OF rec] obtain k where k: "k \<le> length ts"
        "calls st' = calls ?st2 @ map (task_call env story_id ext) (zip [Suc idx ..< Suc idx + k] (take k ts))"
        "r = Inr () \<longrightarrow> k = length ts" by blast
      have up: "[idx ..< idx + Suc k] = idx # [Suc idx ..< Suc idx + k]"
        by (simp add: upt_conv_Cons)
      have "calls st' = calls st @ map (task_call env story_id ext)
          (zip [idx ..< idx + Suc k] (take (Suc k) (t # ts)))"
        unfolding up using k(2) f by (simp add: task_call_def)
      with k(1,3) show ?thesis by (intro exI[of _ "Suc k"]) simp
    qed
  qed
qed

lemma tasks_loop_success:
  assumes "tasks_loop env False s story idx ts st = (Inr (), st')"
    and "subscript s ''external_id'' = Inr ext"
  shows "\<exists>cs. calls st' = calls st @ cs \<and> created_tasks cs = numbered_tasks env ext idx ts"
proof (cases ts)
  case Nil
  with assms show ?thesis by (simp add: ret_def numbered_tasks_def created_tasks_def List.map_filter_simps)
next
  case (Cons t ts')
  from assms(1) obtain story_id where sid: "subscript story ''id'' = Inr story_id"
    unfolding Cons tasks_loop.simps by (auto elim!: bind_InrE dest!: lift_InrD)
  from tasks_loop_calls[OF sid assms(2) assms(1)]
  have "calls st' = calls st @ map (task_call env story_id ext) (zip [idx ..< idx + length ts] ts)"
    by auto
  then show ?thesis
    by (intro exI[of _ "map (task_call env story_id ext) (zip [idx ..< idx + length ts] ts)"])
       (simp add: created_tasks_task_calls numbered_tasks_def)
qed

lemmas entity_simps =
  find_project_by_external_id_def create_project_def upsert_project_def
  get_milestones_def find_milestone_by_external_id_def create_milestone_def
  update_milestone_def upsert_milestone_def
  list_epics_def find_epic_by_external_id_def create_epic_def update_epic_def upsert_epic_def
  list_iterations_def find_iteration_by_external_id_def create_iteration_def
  update_iteration_def upsert_iteration_def drop_falsy_def
  list_stories_def find_story_by_external_id_def create_story_def update_story_def
  upsert_story_def create_task_def
lemmas stage_simps =
  bootstrap_def projects_stage_def milestone_stage_def epics_stage_def iteration_stage_def
  iteration_payload_def iteration_dates_def iso_week_dates_def date_add_def timedelta_days_def
  weekday_def stories_stage_def story_step_def story_upsert_def story_payload_def
  task_external_id_def placeholder_def

lemma story_payload_ext:
  "story_payload s proj epic it = Inr payload \<Longrightarrow> \<exists>ext. subscript s ''external_id'' = Inr ext"
  by (auto simp add: story_payload_def split: sum.splits)

lemma story_step_success:
  assumes "story_step env False pm em it s st = (Inr (), st')"
  shows "\<exists>cs. calls st' = calls st @ cs \<and> created_tasks cs = story_tasks env s"
proof -
  from assms obtain proj epic payload story v ts st1 where
    p: "story_payload s proj epic it = Inr payload"
    and u: "story_upsert env False s payload st = (Inr story, st1)"
    and v: "dict_get s ''tasks'' (JList []) = Inr v" "py_iter v = Inr ts"
    and t: "tasks_loop env False s story 1 ts st1 = (Inr (), st')"
    unfolding story_step_def
    by (auto elim!: bind_InrE dest!: lift_InrD simp add: raise_def split: if_splits)
  from story_payload_ext[OF p] obtain ext where ext: "subscript s ''external_id'' = Inr ext" ..
  from appendsD[OF story_upsert_appends u] obtain cs1 where
    cs1: "calls st1 = calls st @ cs1" "list_all no_task_call cs1" .
  from tasks_loop_success[OF t ext] obtain cs2 where
    cs2: "calls st' = calls st1 @ cs2" "created_tasks cs2 = numbered_tasks env ext 1 ts" by blast
  have "story_tasks env s = numbered_tasks env ext 1 ts"
    using ext v by (simp add: story_tasks_def cfg_list_def)
  with cs1 cs2 show ?thesis
    by (intro exI[of _ "cs1 @ cs2"]) (simp add: created_tasks_append created_tasks_none)
qed

lemma stories_loop_success:
  "stories_loop env False pm em it ss st = (Inr (), st') \<Longrightarrow>
   \<exists>cs. calls st' = calls st @ cs \<and> created_tasks cs = concat (map (story_tasks env) ss)"
proof (induction ss arbitrary: st)
  case Nil
  then show ?case by (simp add: ret_def created_tasks_def List.map_filter_simps)
next
  case (Cons s ss)
  from Cons.prems obtain st1 where
    a: "story_step env False pm em it s st = (Inr (), st1)"
    and b: "stories_loop env False pm em it ss st1 = (Inr (), st')"
    by (auto elim!: bind_InrE)
  from story_step_success[OF a] obtain cs1 where
    cs1: "calls st1 = calls st @ cs1" "created_tasks cs1 = story_tasks env s" by blast
  from Cons.IH[OF b] obtain cs2 where
    cs2: "calls st' = calls st1 @ cs2" "created_tasks cs2 = concat (map (story_tasks env) ss)"
    by blast
  from cs1 cs2 show ?case
    by (intro exI[of _ "cs1 @ cs2"]) (simp add: created_tasks_append)
qed

lemma bootstrap_success:
  assumes "bootstrap env cfg False st = (Inr (), st')"
  shows "\<exists>cs. calls st' = calls st @ cs \<and> created_tasks cs = configured_tasks env cfg"
proof -
  from assms obtain pm ms em it st1 st2 st3 st4 v ss where
    s1: "projects_stage env cfg False st = (Inr pm, st1)"
    and s2: "milestone_stage env cfg False st1 = (Inr ms, st2)"
    and s3: "epics_stage env cfg False ms st2 = (Inr em, st3)"
    and s4: "iteration_stage env cfg False st3 = (Inr it, st4)"
    and v: "dict_get cfg ''stories'' (JList []) = Inr v" "py_iter v = Inr ss"
    and s5: "stories_loop env False pm em it ss st4 = (Inr (), st')"
    unfolding bootstrap_def stories_stage_def
    by (auto elim!: bind_InrE dest!: lift_InrD)
  from appendsD[OF projects_stage_appends s1] obtain c1 where
    c1: "calls st1 = calls st @ c1" "list_all no_task_call c1" .
  from appendsD[OF milestone_stage_appends s2] obtain c2 where
    c2: "calls st2 = calls st1 @ c2" "list_all no_task_call c2" .
  from appendsD[OF epics_stage_appends s3] obtain c3 where
    c3: "calls st3 = calls st2 @ c3" "list_all no_task_call c3" .
  from appendsD[OF iteration_stage_appends s4] obtain c4 where
    c4: "calls st4 = calls st3 @ c4" "list_all no_task_call c4" .
  from stories_loop_success[OF s5] obtain c5 where
    c5: "calls st' = calls st4 @ c5" "created_tasks c5 = concat (map (story_tasks env) ss)"
    by blast
  have "configured_tasks env cfg = concat (map (story_tasks env) ss)"
    using v by (simp add: configured_tasks_def cfg_list_def)
  with c1 c2 c3 c4 c5 show ?thesis
    by (intro exI[of _ "c1 @ c2 @ c3 @ c4 @ c5"])
       (simp add: created_tasks_append created_tasks_none)
qed

lemma new_calls_append: "calls st' = calls st @ cs \<Longrightarrow> new_calls st st' = cs"
  by (simp add: new_calls_def)

text \<open>
  C2. Let two successive runs of \<open>bootstrap\<close> with the same configuration both
  complete. Each run creates every configured task of every configured story, once, in
  order, whatever the remote side holds: the creations of a run are the configured tasks.
  So after the second run each task has been created twice. No call of either run lists
  or updates tasks: every call on the task collection is \<open>POST /tasks\<close>.
\<close>

theorem tasks_created_on_every_run:
  assumes "bootstrap env cfg False st = (Inr (), st1)"
    and "bootstrap env cfg False st1 = (Inr (), st2)"
  shows "created_tasks (new_calls st st1) = configured_tasks env cfg
    \<and> created_tasks (new_calls st1 st2) = configured_tasks env cfg
    \<and> created_tasks (new_calls st st2) = configured_tasks env cfg @ configured_tasks env cfg
    \<and> length (created_tasks (new_calls st st2)) = 2 * length (created_tasks (new_calls st st1))
    \<and> list_all task_post_only (new_calls st st2)"
proof -
  from bootstrap_success[OF assms(1)] obtain c1 where
    c1: "calls st1 = calls st @ c1" "created_tasks c1 = configured_tasks env cfg" by blast
  from bootstrap_success[OF assms(2)] obtain c2 where
    c2: "calls st2 = calls st1 @ c2" "created_tasks c2 = configured_tasks env cfg" by blast
  from appendsD[OF bootstrap_appends assms(1)] c1(1) have p1: "list_all task_post_only c1"
    by auto
  from appendsD[OF bootstrap_appends assms(2)] c2(1) have p2: "list_all task_post_only c2"
    by auto
  have n: "new_calls st st1 = c1" "new_calls st1 st2 = c2" "new_calls st st2 = c1 @ c2"
    using c1(1) c2(1) by (simp_all add: new_calls_def)
  show ?thesis unfolding n using c1(2) c2(2) p1 p2 by (simp add: created_tasks_append)
qed


lemmas demo_simps = demo_cfg_def first_run_script_def second_run_script_def ok_json_def
  remote_def demo_env_def scripted_http_def demo_isoformat_def
lemmas eval_simps = stage_simps entity_simps prog_simps py_simps Let_def retryable_def
  eval_nat_numeral str_int_def str_nat.simps

lemma demo_first_run:
  "world st = first_run_script @ rest \<Longrightarrow>
   (case bootstrap (demo_env (Some ''t'')) demo_cfg False st of
      (r, st') \<Rightarrow> r = Inr () \<and> world st' = rest)"
  by (simp add: eval_simps demo_simps)

lemma demo_second_run:
  "world st = second_run_script @ rest \<Longrightarrow>
   (case bootstrap (demo_env (Some ''t'')) demo_cfg False st of
      (r, st') \<Rightarrow> r = Inr () \<and> world st' = rest)"
  by (simp add: eval_simps demo_simps)

text \<open>
  The complete configuration has one story with the tasks \<open>write\<close> and \<open>test\<close>. The
  first run creates every entity and both tasks; the second finds every entity and
  creates both tasks again.
\<close>

theorem tasks_created_on_every_run_witness:
  "created_tasks (new_calls (init (first_run_script @ second_run_script)) after_first_run) =
     [(JStr ''write'', JStr ''beeai:task:story-1:1''), (JStr ''test'', JStr ''beeai:task:story-1:2'')]
   \<and> created_tasks (new_calls (init (first_run_script @ second_run_script)) after_second_run) =
     [(JStr ''write'', JStr ''beeai:task:story-1:1''), (JStr ''test'', JStr ''beeai:task:story-1:2''),
      (JStr ''write'', JStr ''beeai:task:story-1:1''), (JStr ''test'', JStr ''beeai:task:story-1:2'')]"
proof -
  have 1: "bootstrap (demo_env (Some ''t'')) demo_cfg False
      (init (first_run_script @ second_run_script)) = (Inr (), after_first_run)"
    and w: "world after_first_run = second_run_script @ []"
    using demo_first_run[of "init (first_run_script @ second_run_script)" second_run_script]
    by (auto simp add: after_first_run_def init_def split: prod.splits)
  have 2: "bootstrap (demo_env (Some ''t'')) demo_cfg False after_first_run
      = (Inr (), after_second_run)"
    using demo_second_run[OF w] by (auto simp add: after_second_run_def split: prod.splits)
  have c: "configured_tasks (demo_env (Some ''t'')) demo_cfg =
     [(JStr ''write'', JStr ''beeai:task:story-1:1''), (JStr ''test'', JStr ''beeai:task:story-1:2'')]"
    by (simp add: configured_tasks_def story_tasks_def numbered_tasks_def cfg_list_def
        task_external_id_def py_simps demo_cfg_def str_int_def str_nat.simps upt_rec)
  show ?thesis using tasks_created_on_every_run[OF 1 2] c by simp
qed


section \<open>The external ids of tasks\<close>

text \<open>
  C6. Let the story have the external id \<open>sid\<close> (a string) and let the loop over its
  tasks run, in a real run, from position 1. Whatever the outcome, the calls it makes
  are the creations of the first \<open>k\<close> tasks in order (all of them when it
  completes), and the task at position \<open>i\<close> is created with the external id
  \<open>beeai:task:\<close>, \<open>sid\<close>, a colon and the decimal notation of \<open>i\<close>. For the
  second task of the story \<open>story-1\<close> this is \<open>beeai:task:story-1:2\<close>.
\<close>

theorem task_external_id_format:
  assumes "subscript story ''id'' = Inr story_id"
    and "subscript s ''external_id'' = Inr (JStr sid)"
    and "tasks_loop env False s story 1 ts st = (r, st')"
  shows "(\<exists>k \<le> length ts.
       calls st' = calls st @
         map (\<lambda>(i, t). (''POST'', ''/tasks'',
                 Some (JObj [(''description'', t), (''story_id'', story_id),
                   (''external_id'', JStr (''beeai:task:'' @ sid @ '':'' @ str_int (int i)))])))
           (zip [1 ..< Suc k] (take k ts))
       \<and> (r = Inr () \<longrightarrow> k = length ts))
    \<and> task_external_id env (JStr ''story-1'') 2 = ''beeai:task:story-1:2''"
proof -
  from tasks_loop_calls[OF assms] obtain k where k: "k \<le> length ts"
    "calls st' = calls st @ map (task_call env story_id (JStr sid)) (zip [1 ..< 1 + k] (take k ts))"
    "r = Inr () \<longrightarrow> k = length ts" by blast
  have tc: "task_call env story_id (JStr sid) =
     (\<lambda>(i, t). (''POST'', ''/tasks'',
                 Some (JObj [(''description'', t), (''story_id'', story_id),
                   (''external_id'', JStr (''beeai:task:'' @ sid @ '':'' @ str_int (int i)))])))"
    by (rule ext) (simp add: task_call_def task_external_id_def py_str_def split: prod.splits)
  have ex: "task_external_id env (JStr ''story-1'') 2 = ''beeai:task:story-1:2''"
    by (simp add: task_external_id_def py_str_def str_int_def str_nat.simps)
  have k': "[1 ..< 1 + k] = [1 ..< Suc k]" by simp
  have "\<exists>k \<le> length ts.
       calls st' = calls st @
         map (\<lambda>(i, t). (''POST'', ''/tasks'',
                 Some (JObj [(''description'', t), (''story_id'', story_id),
                   (''external_id'', JStr (''beeai:task:'' @ sid @ '':'' @ str_int (int i)))])))
           (zip [1 ..< Suc k] (take k ts))
       \<and> (r = Inr () \<longrightarrow> k = length ts)"
    using k unfolding tc k' by (intro exI[of _ k]) (simp only: simp_thms)
  with ex show ?thesis by (rule conjI[rotated])
qed


text \<open>The two tasks of the story \<open>story-1\<close>, whose remote id is 5.\<close>

theorem task_external_id_format_witness:
  "calls (snd (tasks_loop (demo_env (Some ''t'')) False
       (JObj [(''external_id'', JStr ''story-1'')]) (remote 5 ''Story 1'' ''story-1'') 1
       [JStr ''write'', JStr ''test'']
       (init [ok_json 201 (remote 6 ''write'' ''beeai:task:story-1:1''),
              ok_json 201 (remote 7 ''test'' ''beeai:task:story-1:2'')])))
   = [(''POST'', ''/tasks'',
        Some (JObj [(''description'', JStr ''write''), (''story_id'', JInt 5),
                    (''external_id'', JStr ''beeai:task:story-1:1'')])),
      (''POST'', ''/tasks'',
        Some (JObj [(''description'', JStr ''test''), (''story_id'', JInt 5),
                    (''external_id'', JStr ''beeai:task:story-1:2'')]))]"
proof -
  let ?st = "init [ok_json 201 (remote 6 ''write'' ''beeai:task:story-1:1''),
              ok_json 201 (remote 7 ''test'' ''beeai:task:story-1:2'')]"
  let ?run = "tasks_loop (demo_env (Some ''t'')) False
       (JObj [(''external_id'', JStr ''story-1'')]) (remote 5 ''Story 1'' ''story-1'') 1
       [JStr ''write'', JStr ''test''] ?st"
  have a: "subscript (remote 5 ''Story 1'' ''story-1'') ''id'' = Inr (JInt 5)"
    by (simp add: remote_def subscript_def)
  have b: "subscript (JObj [(''external_id'', JStr ''story-1'')]) ''external_id''
      = Inr (JStr ''story-1'')"
    by (simp add: subscript_def)
  obtain r st' where run: "?run = (r, st')" by (cases ?run)
  have "fst ?run = Inr ()"
    by (simp add: eval_simps demo_simps init_def)
  with run have ok: "r = Inr ()" by (simp only: fst_conv)
  from task_external_id_format[OF a b run] obtain k where k: "k \<le> length [JStr ''write'', JStr ''test'']"
    "calls st' = calls ?st @
         map (\<lambda>(i, t). (''POST'', ''/tasks'',
                 Some (JObj [(''description'', t), (''story_id'', JInt 5),
                   (''external_id'', JStr (''beeai:task:'' @ ''story-1'' @ '':'' @ str_int (int i)))])))
           (zip [1 ..< Suc k] (take k [JStr ''write'', JStr ''test'']))"
    "r = Inr () \<longrightarrow> k = length [JStr ''write'', JStr ''test'']"
    by blast
  from k(3) ok have k2: "k = 2" by simp
  have "calls (snd ?run) = calls st'" by (simp only: run snd_conv)
  with k(2) show ?thesis unfolding k2
    by (simp add: init_def upt_rec str_int_def str_nat.simps)
qed


section \<open>Upsert of an entity that exists\<close>

text \<open>
  When the scan finds a record, the upserts of milestones, epics, iterations and
  stories continue with the update of that record, by its \<open>id\<close>, with the payload
  built from the configuration. The upsert of a project returns the record found.
\<close>

lemma upsert_milestone_found:
  assumes "subscript m ''external_id'' = Inr ext" and "subscript m ''name'' = Inr name"
    and "dict_get m ''description'' (JStr []) = Inr description"
    and "dict_get m ''state'' (JStr ''to_do'') = Inr state"
    and "find_milestone_by_external_id env ext st = (Inr found, st1)"
    and "truthy found" and "subscript found ''id'' = Inr mid"
  shows "upsert_milestone env m st =
     update_milestone env mid
       (JObj [(''name'', name), (''description'', description), (''state'', state),
              (''external_id'', ext)]) st1"
  using assms by (simp add: upsert_milestone_def bind_def lift_def Let_def)

lemma upsert_epic_found:
  assumes "subscript e ''external_id'' = Inr ext" and "subscript e ''name'' = Inr name"
    and "dict_get e ''description'' (JStr []) = Inr description"
    and "dict_get e ''labels'' (JList []) = Inr labels"
    and "find_epic_by_external_id env ext st = (Inr found, st1)"
    and "truthy found" and "subscript found ''id'' = Inr eid"
  shows "upsert_epic env e milestone_id st =
     update_epic env eid
       (JObj [(''name'', name), (''description'', description),
              (''milestone_id'', milestone_id), (''labels'', labels),
              (''external_id'', ext)]) st1"
  using assms by (simp add: upsert_epic_def bind_def lift_def Let_def)

lemma upsert_iteration_found:
  assumes "subscript i ''external_id'' = Inr ext" and "subscript i ''name'' = Inr name"
    and "dict_get i ''start_date'' JNull = Inr start_date"
    and "dict_get i ''end_date'' JNull = Inr end_date"
    and "find_iteration_by_external_id env ext st = (Inr found, st1)"
    and "truthy found" and "subscript found ''id'' = Inr iid"
  shows "upsert_iteration env i st =
     update_iteration env iid
       (JObj (drop_falsy [(''name'', name), (''start_date'', start_date),
                          (''end_date'', end_date), (''external_id'', ext)])) st1"
  using assms by (simp add: upsert_iteration_def bind_def lift_def Let_def)

lemma upsert_story_found:
  assumes "subscript s ''external_id'' = Inr ext"
    and "find_story_by_external_id env ext st = (Inr found, st1)"
    and "truthy found" and "subscript found ''id'' = Inr story_id"
  shows "upsert_story env s st = update_story env story_id s st1"
  using assms by (simp add: upsert_story_def bind_def lift_def)

lemma upsert_project_found:
  assumes "subscript p ''external_id'' = Inr ext"
    and "find_project_by_external_id env ext st = (Inr found, st1)"
    and "truthy found"
  shows "upsert_project env p st = (Inr found, st1)"
  using assms by (simp add: upsert_project_def bind_def lift_def ret_def)

text \<open>
  C1 at a project. The remote side lists a project with the external id of the
  configured one and another name and description. \<open>upsert_project\<close> makes the one
  call \<open>GET /projects\<close> and returns the remote record as it is: no \<open>PUT\<close> is sent
  and the configured name and description are not written.
\<close>

theorem upsert_project_found_not_updated:
  "upsert_project (demo_env (Some ''t'')) desired_project
     (init [ok_json 200 (JList [remote_project])])
   = (Inr remote_project,
      (init [])\<lparr>calls := [(''GET'', ''/projects'', None)],
        sent := [the_request (demo_env (Some ''t'')) ''t'' ''GET'' ''/projects'' None]\<rparr>)"
  by (simp add: eval_simps demo_simps init_def remote_project_def desired_project_def
      the_request_def)


section \<open>Stories that name an unknown project or epic\<close>

lemma unresolved_second_story_run:
  "(case main (demo_env (Some ''t'')) cfg_second_story_unresolved ''bootstrap''
           (init one_story_script) of
      (code, st') \<Rightarrow>
        code = 2
        \<and> drop 6 (calls st') =
            [(''GET'', ''/stories'', None), (''POST'', ''/stories'', Some story_1_payload)]
        \<and> stdout st' = [''[ok] project: Core id=1'', ''[ok] milestone: M1 id=2'',
                         ''[ok] epic: Epic A id=3'', ''[ok] story: Story 1 id=5''])"
  by (simp add: main_def eval_simps demo_simps init_def cfg_second_story_unresolved_def
      one_story_script_def story_1_payload_def)

text \<open>
  C4, as stated, fails. The first story resolves and the second does not: the run ends
  with exit status 2 after it has listed the stories and created the first one.
\<close>

theorem unresolved_story_after_upsert_counterexample:
  "fst (main (demo_env (Some ''t'')) cfg_second_story_unresolved ''bootstrap''
          (init one_story_script)) = 2
   \<and> drop 6 (calls (snd (main (demo_env (Some ''t'')) cfg_second_story_unresolved ''bootstrap''
          (init one_story_script)))) =
       [(''GET'', ''/stories'', None), (''POST'', ''/stories'', Some story_1_payload)]"
  using unresolved_second_story_run unfolding case_prod_unfold by (simp only: simp_thms)

text \<open>
  On hashable values \<open>==\<close> is transitive, so a name is a key of a name dictionary
  exactly if it equals one of the names stored; the dictionaries of the projects and
  epics stages have the configured names as keys.
\<close>

lemma py_eq_trans:
  "hashable a \<Longrightarrow> hashable b \<Longrightarrow> hashable c \<Longrightarrow> py_eq a b \<Longrightarrow> py_eq b c \<Longrightarrow> py_eq a c"
  by (cases a; cases b; cases c) (auto split: if_splits)

lemma nm_lookup_None: "nm_lookup m k = None \<longleftrightarrow> (\<forall>k0 \<in> fst ` set m. \<not> py_eq k0 k)"
proof (induction m)
  case Nil
  show ?case by simp
next
  case (Cons kv m)
  obtain k' v where kv: "kv = (k', v)" by (cases kv)
  show ?case unfolding kv using Cons.IH by (cases "py_eq k' k") auto
qed

lemma nm_update_keys:
  "fst ` set (nm_update m n v) =
     fst ` set m \<union> (if \<exists>k0 \<in> fst ` set m. py_eq k0 n then {} else {n})"
proof (induction m)
  case Nil
  show ?case by simp
next
  case (Cons kv m)
  obtain k' v' where kv: "kv = (k', v')" by (cases kv)
  show ?case
  proof (cases "py_eq k' n")
    case True
    then show ?thesis unfolding kv by auto
  next
    case False
    have "fst ` set (nm_update (kv # m) n v) = insert k' (fst ` set (nm_update m n v))"
      unfolding kv using False by simp
    also have "\<dots> = insert k' (fst ` set m \<union> (if \<exists>k0 \<in> fst ` set m. py_eq k0 n then {} else {n}))"
      by (simp only: Cons.IH)
    also have "\<dots> = fst ` set (kv # m)
        \<union> (if \<exists>k0 \<in> fst ` set (kv # m). py_eq k0 n then {} else {n})"
      unfolding kv using False by auto
    finally show ?thesis .
  qed
qed

lemma nm_update_lookup_None:
  assumes "\<forall>k0 \<in> fst ` set m. hashable k0" and "hashable n" and "hashable k"
  shows "nm_lookup (nm_update m n v) k = None \<longleftrightarrow> nm_lookup m k = None \<and> \<not> py_eq n k"
proof (cases "\<exists>k0 \<in> fst ` set m. py_eq k0 n")
  case False
  then show ?thesis unfolding nm_lookup_None nm_update_keys by auto
next
  case True
  then obtain k0 where k0: "k0 \<in> fst ` set m" "py_eq k0 n" by blast
  have "\<not> py_eq k0 k \<Longrightarrow> \<not> py_eq n k"
  proof
    assume a: "\<not> py_eq k0 k" and b: "py_eq n k"
    from assms k0 have "hashable k0" by blast
    with py_eq_trans[OF this assms(2,3) k0(2) b] a show False by simp
  qed
  with True k0 show ?thesis unfolding nm_lookup_None nm_update_keys by auto
qed

lemma nm_set_InrD:
  "nm_set m n v = Inr m1 \<Longrightarrow> hashable n \<and> m1 = nm_update m n v"
  by (auto simp add: nm_set_def split: if_splits)

lemma nm_update_hashable:
  "\<forall>k0 \<in> fst ` set m. hashable k0 \<Longrightarrow> hashable n \<Longrightarrow>
   \<forall>k0 \<in> fst ` set (nm_update m n v). hashable k0"
  unfolding nm_update_keys by auto

lemma projects_loop_keys:
  "projects_loop env dry_run ps m st = (Inr m', st') \<Longrightarrow>
   \<forall>k0 \<in> fst ` set m. hashable k0 \<Longrightarrow> hashable k \<Longrightarrow>
   nm_lookup m' k = None \<longleftrightarrow>
     nm_lookup m k = None \<and> (\<forall>p \<in> set ps. \<not> py_eq (field p ''name'') k)"
proof (induction ps arbitrary: m st)
  case Nil
  then show ?case by (simp add: ret_def)
next
  case (Cons p ps)
  from Cons.prems(1) obtain name v m1 st1 where
    n: "subscript p ''name'' = Inr name" and s: "nm_set m name v = Inr m1"
    and rest: "projects_loop env dry_run ps m1 st1 = (Inr m', st')"
    by (cases dry_run) (auto elim!: bind_InrE dest!: lift_InrD)
  from nm_set_InrD[OF s] have h: "hashable name" and m1: "m1 = nm_update m name v" by simp_all
  have hm1: "\<forall>k0 \<in> fst ` set m1. hashable k0"
    unfolding m1 using Cons.prems(2) h by (rule nm_update_hashable)
  have f: "field p ''name'' = name" using n by (simp add: field_def)
  from Cons.IH[OF rest hm1 Cons.prems(3)]
    nm_update_lookup_None[OF Cons.prems(2) h Cons.prems(3), of v]
  show ?case unfolding m1 by (auto simp add: f)
qed

lemma epics_loop_keys:
  "epics_loop env dry_run ms es m st = (Inr m', st') \<Longrightarrow>
   \<forall>k0 \<in> fst ` set m. hashable k0 \<Longrightarrow> hashable k \<Longrightarrow>
   nm_lookup m' k = None \<longleftrightarrow>
     nm_lookup m k = None \<and> (\<forall>e \<in> set es. \<not> py_eq (field e ''name'') k)"
proof (induction es arbitrary: m st)
  case Nil
  then show ?case by (simp add: ret_def)
next
  case (Cons e es)
  from Cons.prems(1) obtain name v m1 st1 where
    n: "subscript e ''name'' = Inr name" and s: "nm_set m name v = Inr m1"
    and rest: "epics_loop env dry_run ms es m1 st1 = (Inr m', st')"
    by (auto elim!: bind_InrE dest!: lift_InrD)
  from nm_set_InrD[OF s] have h: "hashable name" and m1: "m1 = nm_update m name v" by simp_all
  have hm1: "\<forall>k0 \<in> fst ` set m1. hashable k0"
    unfolding m1 using Cons.prems(2) h by (rule nm_update_hashable)
  have f: "field e ''name'' = name" using n by (simp add: field_def)
  from Cons.IH[OF rest hm1 Cons.prems(3)]
    nm_update_lookup_None[OF Cons.prems(2) h Cons.prems(3), of v]
  show ?case unfolding m1 by (auto simp add: f)
qed

lemma projects_stage_keys:
  assumes "projects_stage env cfg dry_run st = (Inr pm, st')" and "hashable k"
  shows "nm_lookup pm k = None \<longleftrightarrow>
     (\<forall>p \<in> set (cfg_list cfg ''projects''). \<not> py_eq (field p ''name'') k)"
proof -
  from assms(1) obtain v ps where v: "dict_get cfg ''projects'' (JList []) = Inr v"
    "py_iter v = Inr ps" and l: "projects_loop env dry_run ps [] st = (Inr pm, st')"
    unfolding projects_stage_def by (auto elim!: bind_InrE dest!: lift_InrD)
  have c: "cfg_list cfg ''projects'' = ps" using v by (simp add: cfg_list_def)
  from projects_loop_keys[OF l _ assms(2)] c show ?thesis by simp
qed

lemma epics_stage_keys:
  assumes "epics_stage env cfg dry_run ms st = (Inr em, st')" and "hashable k"
  shows "nm_lookup em k = None \<longleftrightarrow>
     (\<forall>e \<in> set (cfg_list cfg ''epics''). \<not> py_eq (field e ''name'') k)"
proof -
  from assms(1) obtain v es where v: "dict_get cfg ''epics'' (JList []) = Inr v"
    "py_iter v = Inr es" and l: "epics_loop env dry_run ms es [] st = (Inr em, st')"
    unfolding epics_stage_def by (auto elim!: bind_InrE dest!: lift_InrD)
  have c: "cfg_list cfg ''epics'' = es" using v by (simp add: cfg_list_def)
  from epics_loop_keys[OF l _ assms(2)] c show ?thesis by simp
qed

lemma story_step_unresolved:
  assumes "subscript s ''project'' = Inr pname" and "hashable pname"
    and "subscript s ''epic'' = Inr ename" and "hashable ename"
    and "nm_lookup pm pname = None \<or> nm_lookup em ename = None"
    and "subscript s ''name'' = Inr name"
  shows "story_step env dry_run pm em it s st =
     (Inl (Exit 2),
      st\<lparr>stderr := stderr st @ [''ERROR: Missing project or epic for story '' @ [CHR 0x27]
                                  @ py_str (repr env) name @ [CHR 0x27]]\<rparr>)"
  using assms
  by (auto simp add: story_step_def bind_def lift_def nm_get_def print_err_def raise_def
      split: option.splits)

lemma stories_loop_append:
  "stories_loop env dry_run pm em it pre st = (Inr (), st1) \<Longrightarrow>
   stories_loop env dry_run pm em it (pre @ rest) st = stories_loop env dry_run pm em it rest st1"
proof (induction pre arbitrary: st)
  case Nil
  then show ?case by (simp add: ret_def)
next
  case (Cons s pre)
  from Cons.prems obtain st0 where
    a: "story_step env dry_run pm em it s st = (Inr (), st0)"
    and b: "stories_loop env dry_run pm em it pre st0 = (Inr (), st1)"
    by (auto elim!: bind_InrE)
  from Cons.IH[OF b] a show ?case by (simp add: bind_def)
qed

text \<open>
  C4, amended. Let the stages before the stories complete, let the stories before \<open>s\<close>
  in the configured list be processed to the end, and let the project name of \<open>s\<close>
  equal the name of no configured project, or its epic name the name of no configured
  epic. Then the run prints the error for \<open>s\<close> and ends with exit status 2 in the
  state the earlier stories left: nothing is sent for \<open>s\<close> or for a story after it,
  while every story before it has been upserted, with its tasks.
\<close>

theorem unresolved_story_aborts:
  assumes "projects_stage env cfg dry_run st = (Inr name_to_project, st1)"
    and "milestone_stage env cfg dry_run st1 = (Inr milestone, st2)"
    and "epics_stage env cfg dry_run milestone st2 = (Inr name_to_epic, st3)"
    and "iteration_stage env cfg dry_run st3 = (Inr iteration, st4)"
    and "dict_get cfg ''stories'' (JList []) = Inr v" and "py_iter v = Inr (pre @ s # post)"
    and "stories_loop env dry_run name_to_project name_to_epic iteration pre st4 = (Inr (), st5)"
    and "subscript s ''project'' = Inr pname" and "hashable pname"
    and "subscript s ''epic'' = Inr ename" and "hashable ename"
    and "(\<forall>p \<in> set (cfg_list cfg ''projects''). \<not> py_eq (field p ''name'') pname)
       \<or> (\<forall>e \<in> set (cfg_list cfg ''epics''). \<not> py_eq (field e ''name'') ename)"
    and "subscript s ''name'' = Inr name"
  shows "bootstrap env cfg dry_run st =
     (Inl (Exit 2),
      st5\<lparr>stderr := stderr st5 @ [''ERROR: Missing project or epic for story '' @ [CHR 0x27]
                                    @ py_str (repr env) name @ [CHR 0x27]]\<rparr>)
    \<and> fst (main env cfg (if dry_run then ''dry-run'' else ''bootstrap'') st) = 2"
proof -
  let ?st6 = "st5\<lparr>stderr := stderr st5 @ [''ERROR: Missing project or epic for story ''
                  @ [CHR 0x27] @ py_str (repr env) name @ [CHR 0x27]]\<rparr>"
  have un: "nm_lookup name_to_project pname = None \<or> nm_lookup name_to_epic ename = None"
    unfolding projects_stage_keys[OF assms(1) assms(9)] epics_stage_keys[OF assms(3) assms(11)]
    by (rule assms(12))
  have step: "story_step env dry_run name_to_project name_to_epic iteration s st5
      = (Inl (Exit 2), ?st6)"
    using assms(8-11) un assms(13) by (rule story_step_unresolved)
  have "stories_loop env dry_run name_to_project name_to_epic iteration (pre @ s # post) st4
      = stories_loop env dry_run name_to_project name_to_epic iteration (s # post) st5"
    using assms(7) by (rule stories_loop_append)
  also have "\<dots> = (Inl (Exit 2), ?st6)"
    using step by (simp add: bind_def)
  finally have loop: "stories_loop env dry_run name_to_project name_to_epic iteration
      (pre @ s # post) st4 = (Inl (Exit 2), ?st6)" .
  have b: "bootstrap env cfg dry_run st = (Inl (Exit 2), ?st6)"
    using assms(1-6) loop by (simp add: bootstrap_def stories_stage_def bind_def lift_def)
  then show ?thesis by (cases dry_run) (simp_all add: main_def)
qed


text \<open>The same configuration in a dry run: the first story is announced, the second aborts.\<close>

theorem unresolved_story_aborts_witness:
  "bootstrap (demo_env None) cfg_second_story_unresolved True (init []) =
     (Inl (Exit 2),
      (init [])\<lparr>stdout := [''[dry-run] upsert project: Core (beeai:project:core)'',
                            ''[dry-run] upsert milestone: M1'',
                            ''[dry-run] upsert epic: Epic A'',
                            ''[dry-run] upsert story: Story 1 (proj '' @ [CHR 0x27] @ ''Core''
                              @ [CHR 0x27] @ '', epic '' @ [CHR 0x27] @ ''Epic A''
                              @ [CHR 0x27] @ '')''],
                 stderr := [''ERROR: Missing project or epic for story '' @ [CHR 0x27]
                              @ ''Story 2'' @ [CHR 0x27]]\<rparr>)
   \<and> fst (main (demo_env None) cfg_second_story_unresolved ''dry-run'' (init [])) = 2"
proof -
  let ?env = "demo_env None :: response list env"
  let ?cfg = cfg_second_story_unresolved
  let ?s1 = "JObj [(''name'', JStr ''Story 1''), (''project'', JStr ''Core''),
              (''epic'', JStr ''Epic A''), (''external_id'', JStr ''story-1'')]"
  let ?s2 = "JObj [(''name'', JStr ''Story 2''), (''project'', JStr ''Nope''),
              (''epic'', JStr ''Epic A''), (''external_id'', JStr ''story-2'')]"
  let ?l1 = "''[dry-run] upsert project: Core (beeai:project:core)''"
  let ?l2 = "''[dry-run] upsert milestone: M1''"
  let ?l3 = "''[dry-run] upsert epic: Epic A''"
  let ?l4 = "''[dry-run] upsert story: Story 1 (proj '' @ [CHR 0x27] @ ''Core''
                              @ [CHR 0x27] @ '', epic '' @ [CHR 0x27] @ ''Epic A''
                              @ [CHR 0x27] @ '')''"
  let ?st1 = "(init [])\<lparr>stdout := [?l1]\<rparr> :: response list state"
  let ?st2 = "(init [])\<lparr>stdout := [?l1, ?l2]\<rparr> :: response list state"
  let ?st3 = "(init [])\<lparr>stdout := [?l1, ?l2, ?l3]\<rparr> :: response list state"
  let ?st5 = "(init [])\<lparr>stdout := [?l1, ?l2, ?l3, ?l4]\<rparr> :: response list state"
  have 1: "projects_stage ?env ?cfg True (init []) = (Inr [(JStr ''Core'', placeholder)], ?st1)"
    by (simp add: eval_simps demo_simps init_def cfg_second_story_unresolved_def)
  have 2: "milestone_stage ?env ?cfg True ?st1 = (Inr placeholder, ?st2)"
    by (simp add: eval_simps demo_simps init_def cfg_second_story_unresolved_def)
  have 3: "epics_stage ?env ?cfg True placeholder ?st2 = (Inr [(JStr ''Epic A'', placeholder)], ?st3)"
    by (simp add: eval_simps demo_simps init_def cfg_second_story_unresolved_def)
  have 4: "iteration_stage ?env ?cfg True ?st3 = (Inr JNull, ?st3)"
    by (simp add: eval_simps demo_simps init_def cfg_second_story_unresolved_def)
  have 5: "dict_get ?cfg ''stories'' (JList []) = Inr (JList [?s1, ?s2])"
    by (simp add: dict_get_def cfg_second_story_unresolved_def)
  have 6: "py_iter (JList [?s1, ?s2]) = Inr ([?s1] @ ?s2 # [])"
    by (simp add: py_iter_def)
  have 7: "stories_loop ?env True [(JStr ''Core'', placeholder)] [(JStr ''Epic A'', placeholder)]
      JNull [?s1] ?st3 = (Inr (), ?st5)"
    by (simp add: eval_simps demo_simps init_def)
  have 8: "subscript ?s2 ''project'' = Inr (JStr ''Nope'')" "hashable (JStr ''Nope'')"
    "subscript ?s2 ''epic'' = Inr (JStr ''Epic A'')" "hashable (JStr ''Epic A'')"
    "(\<forall>p \<in> set (cfg_list ?cfg ''projects''). \<not> py_eq (field p ''name'') (JStr ''Nope''))
       \<or> (\<forall>e \<in> set (cfg_list ?cfg ''epics''). \<not> py_eq (field e ''name'') (JStr ''Epic A''))"
    "subscript ?s2 ''name'' = Inr (JStr ''Story 2'')"
    by (simp_all add: subscript_def cfg_list_def field_def dict_get_def py_iter_def
        cfg_second_story_unresolved_def)
  show ?thesis
    using unresolved_story_aborts[OF 1 2 3 4 5 6 7 8]
    by (simp add: py_str_def init_def)
qed


section \<open>Dry runs\<close>

lemma silent_ret: "silent (ret x)" by (simp add: silent_def ret_def)
lemma silent_raise: "silent (raise a)" by (simp add: silent_def raise_def)
lemma silent_lift: "silent (lift r)" by (simp add: silent_def lift_def)
lemma silent_print_out: "silent (print_out l)" by (simp add: silent_def print_out_def)
lemma silent_print_err: "silent (print_err l)" by (simp add: silent_def print_err_def)

lemma silent_bind:
  assumes "silent m" and "\<And>x. silent (f x)"
  shows "silent (bind m f)"
  unfolding silent_def
proof
  fix st
  obtain r st1 where m: "m st = (r, st1)" by (cases "m st")
  from assms(1) m have f1: "world st1 = world st \<and> sent st1 = sent st
      \<and> calls st1 = calls st \<and> slept st1 = slept st"
    unfolding silent_def by (metis snd_conv)
  show "world (snd (bind m f st)) = world st \<and> sent (snd (bind m f st)) = sent st
      \<and> calls (snd (bind m f st)) = calls st \<and> slept (snd (bind m f st)) = slept st"
  proof (cases r)
    case (Inl a)
    with m f1 show ?thesis by (simp add: bind_def)
  next
    case (Inr x)
    from assms(2)[of x] have "world (snd (f x st1)) = world st1 \<and> sent (snd (f x st1)) = sent st1
      \<and> calls (snd (f x st1)) = calls st1 \<and> slept (snd (f x st1)) = slept st1"
      unfolding silent_def by blast
    with m f1 Inr show ?thesis by (simp add: bind_def)
  qed
qed

lemma silent_if:
  "(c \<Longrightarrow> silent a) \<Longrightarrow> (\<not> c \<Longrightarrow> silent b) \<Longrightarrow> silent (if c then a else b)"
  by simp

lemmas silent_intros = silent_ret silent_raise silent_lift silent_print_out silent_print_err
  silent_bind silent_if

lemma silentD:
  assumes "silent m" and "m st = (r, st')"
  shows "world st' = world st \<and> sent st' = sent st \<and> calls st' = calls st \<and> slept st' = slept st"
  using assms unfolding silent_def by (metis snd_conv)

lemma projects_loop_silent: "silent (projects_loop env True ps m)"
proof (induction ps arbitrary: m)
  case Nil
  show ?case by (simp add: silent_ret)
next
  case (Cons p ps)
  show ?case unfolding projects_loop.simps if_True
    by (intro silent_intros Cons.IH)
qed

lemma epics_loop_silent: "silent (epics_loop env True ms es m)"
proof (induction es arbitrary: m)
  case Nil
  show ?case by (simp add: silent_ret)
next
  case (Cons e es)
  show ?case unfolding epics_loop.simps if_True
    by (intro silent_intros Cons.IH)
qed

lemma tasks_loop_silent: "silent (tasks_loop env True s story idx ts)"
proof (induction ts arbitrary: idx)
  case Nil
  show ?case by (simp add: silent_ret)
next
  case (Cons t ts)
  show ?case unfolding tasks_loop.simps if_True Let_def
    by (intro silent_intros Cons.IH)
qed

lemma story_step_silent: "silent (story_step env True pm em it s)"
  unfolding story_step_def story_upsert_def if_True
  by (intro silent_intros tasks_loop_silent)

lemma stories_loop_silent: "silent (stories_loop env True pm em it ss)"
proof (induction ss)
  case Nil
  show ?case by (simp add: silent_ret)
next
  case (Cons s ss)
  show ?case unfolding stories_loop.simps
    by (intro silent_intros story_step_silent Cons.IH)
qed

lemma bootstrap_silent: "silent (bootstrap env cfg True)"
  unfolding bootstrap_def projects_stage_def milestone_stage_def epics_stage_def
    iteration_stage_def stories_stage_def if_True
  by (intro silent_intros projects_loop_silent epics_loop_silent stories_loop_silent)

lemma print_out_InrD: "print_out l st = (Inr x, st') \<Longrightarrow> st' = st\<lparr>stdout := stdout st @ [l]\<rparr>"
  by (auto simp add: print_out_def)

lemma ret_InrD: "ret x st = (Inr y, st') \<Longrightarrow> y = x \<and> st' = st"
  by (simp add: ret_def)

lemma field_subscript: "subscript d k = Inr v \<Longrightarrow> field d k = v"
  by (simp add: field_def)

lemma placeholders_update:
  "placeholders m \<Longrightarrow> placeholders (nm_update m k placeholder)"
  unfolding placeholders_def by (induction m) auto

lemma projects_loop_dry:
  "projects_loop env True ps m st = (Inr m', st') \<Longrightarrow>
   stdout st' = stdout st @ map (dry_project_line env) ps \<and> stderr st' = stderr st
   \<and> (placeholders m \<longrightarrow> placeholders m')"
proof (induction ps arbitrary: m st)
  case Nil
  then show ?case by (simp add: ret_def)
next
  case (Cons p ps)
  from Cons.prems obtain name ext m1 where
    n: "subscript p ''name'' = Inr name" and e: "subscript p ''external_id'' = Inr ext"
    and m1: "nm_set m name placeholder = Inr m1"
    and rest: "projects_loop env True ps m1
        (st\<lparr>stdout := stdout st @ [''[dry-run] upsert project: '' @ py_str (repr env) name
                           @ '' ('' @ py_str (repr env) ext @ '')'']\<rparr>) = (Inr m', st')"
    by (auto elim!: bind_InrE dest!: lift_InrD print_out_InrD)
  have l: "dry_project_line env p = ''[dry-run] upsert project: '' @ py_str (repr env) name
                           @ '' ('' @ py_str (repr env) ext @ '')''"
    by (simp add: dry_project_line_def field_subscript[OF n] field_subscript[OF e])
  have p: "placeholders m \<longrightarrow> placeholders m1"
    using m1 by (auto simp add: nm_set_def placeholders_update split: if_splits)
  from Cons.IH[OF rest] l p show ?case by simp
qed

lemma projects_stage_dry:
  assumes "projects_stage env cfg True st = (Inr pm, st')"
  shows "stdout st' = stdout st @ map (dry_project_line env) (cfg_list cfg ''projects'')"
    and "stderr st' = stderr st" and "placeholders pm"
proof -
  from assms obtain v ps where v: "dict_get cfg ''projects'' (JList []) = Inr v"
    "py_iter v = Inr ps" and l: "projects_loop env True ps [] st = (Inr pm, st')"
    unfolding projects_stage_def by (auto elim!: bind_InrE dest!: lift_InrD)
  have c: "cfg_list cfg ''projects'' = ps" using v by (simp add: cfg_list_def)
  from projects_loop_dry[OF l] c
  show "stdout st' = stdout st @ map (dry_project_line env) (cfg_list cfg ''projects'')"
    and "stderr st' = stderr st" and "placeholders pm"
    by (simp_all add: placeholders_def)
qed

lemma milestone_stage_dry:
  assumes "milestone_stage env cfg True st = (Inr ms, st')"
  shows "stdout st' = stdout st @ [dry_milestone_line env cfg]"
    and "stderr st' = stderr st" and "ms = placeholder"
proof -
  from assms obtain ms_cfg name where c: "subscript cfg ''milestone'' = Inr ms_cfg"
    and n: "subscript ms_cfg ''name'' = Inr name"
    and r: "ms = placeholder"
      "st' = st\<lparr>stdout := stdout st @ [''[dry-run] upsert milestone: '' @ py_str (repr env) name]\<rparr>"
    unfolding milestone_stage_def
    by (auto elim!: bind_InrE dest!: lift_InrD print_out_InrD ret_InrD)
  have "dry_milestone_line env cfg = ''[dry-run] upsert milestone: '' @ py_str (repr env) name"
    by (simp add: dry_milestone_line_def field_subscript[OF c] field_subscript[OF n])
  with r show "stdout st' = stdout st @ [dry_milestone_line env cfg]"
    and "stderr st' = stderr st" and "ms = placeholder" by simp_all
qed

lemma epics_loop_dry:
  "epics_loop env True ms es m st = (Inr m', st') \<Longrightarrow>
   stdout st' = stdout st @ map (dry_epic_line env) es \<and> stderr st' = stderr st
   \<and> (placeholders m \<longrightarrow> placeholders m')"
proof (induction es arbitrary: m st)
  case Nil
  then show ?case by (simp add: ret_def)
next
  case (Cons e es)
  from Cons.prems obtain name m1 where
    n: "subscript e ''name'' = Inr name"
    and m1: "nm_set m name placeholder = Inr m1"
    and rest: "epics_loop env True ms es m1
        (st\<lparr>stdout := stdout st @ [''[dry-run] upsert epic: '' @ py_str (repr env) name]\<rparr>)
        = (Inr m', st')"
    by (auto elim!: bind_InrE dest!: lift_InrD print_out_InrD ret_InrD)
  have l: "dry_epic_line env e = ''[dry-run] upsert epic: '' @ py_str (repr env) name"
    by (simp add: dry_epic_line_def field_subscript[OF n])
  have p: "placeholders m \<longrightarrow> placeholders m1"
    using m1 by (auto simp add: nm_set_def placeholders_update split: if_splits)
  from Cons.IH[OF rest] l p show ?case by simp
qed

lemma epics_stage_dry:
  assumes "epics_stage env cfg True ms st = (Inr em, st')"
  shows "stdout st' = stdout st @ map (dry_epic_line env) (cfg_list cfg ''epics'')"
    and "stderr st' = stderr st" and "placeholders em"
proof -
  from assms obtain v es where v: "dict_get cfg ''epics'' (JList []) = Inr v"
    "py_iter v = Inr es" and l: "epics_loop env True ms es [] st = (Inr em, st')"
    unfolding epics_stage_def by (auto elim!: bind_InrE dest!: lift_InrD)
  have c: "cfg_list cfg ''epics'' = es" using v by (simp add: cfg_list_def)
  from epics_loop_dry[OF l] c
  show "stdout st' = stdout st @ map (dry_epic_line env) (cfg_list cfg ''epics'')"
    and "stderr st' = stderr st" and "placeholders em"
    by (simp_all add: placeholders_def)
qed

lemma iteration_stage_dry:
  assumes "iteration_stage env cfg True st = (Inr it, st')"
  shows "stdout st' = stdout st @ dry_iteration_lines env cfg"
    and "stderr st' = stderr st" and "it = placeholder \<or> it = JNull"
proof -
  from assms obtain it_cfg where c: "dict_get cfg ''iteration'' (JObj []) = Inr it_cfg"
    and r: "(if truthy it_cfg then
         bind (lift (iteration_payload env cfg it_cfg)) (\<lambda>it_payload.
             bind (lift (subscript it_payload ''name'')) (\<lambda>name.
             bind (lift (subscript it_payload ''start_date'')) (\<lambda>start.
             bind (lift (subscript it_payload ''end_date'')) (\<lambda>end_date.
             bind (print_out (''[dry-run] upsert iteration: '' @ py_str (repr env) name @ '' ''
                                @ py_str (repr env) start @ ''..'' @ py_str (repr env) end_date))
               (\<lambda>_. ret placeholder)))))
       else ret JNull) st = (Inr it, st')"
    unfolding iteration_stage_def if_True by (auto elim!: bind_InrE dest!: lift_InrD)
  show "stdout st' = stdout st @ dry_iteration_lines env cfg"
    and "stderr st' = stderr st" and "it = placeholder \<or> it = JNull"
  proof (atomize (full), cases "truthy it_cfg")
    case False
    with r c show "stdout st' = stdout st @ dry_iteration_lines env cfg \<and> stderr st' = stderr st
        \<and> (it = placeholder \<or> it = JNull)"
      by (simp add: ret_def dry_iteration_lines_def)
  next
    case True
    with r obtain p name start end_date where p: "iteration_payload env cfg it_cfg = Inr p"
      and f: "subscript p ''name'' = Inr name" "subscript p ''start_date'' = Inr start"
        "subscript p ''end_date'' = Inr end_date"
      and s: "it = placeholder"
        "st' = st\<lparr>stdout := stdout st @ [''[dry-run] upsert iteration: ''
            @ py_str (repr env) name @ '' '' @ py_str (repr env) start @ ''..''
            @ py_str (repr env) end_date]\<rparr>"
      by (auto elim!: bind_InrE dest!: lift_InrD print_out_InrD ret_InrD)
    have "dry_iteration_lines env cfg = [''[dry-run] upsert iteration: ''
            @ py_str (repr env) name @ '' '' @ py_str (repr env) start @ ''..''
            @ py_str (repr env) end_date]"
      using c True p by (simp add: dry_iteration_lines_def field_subscript[OF f(1)]
          field_subscript[OF f(2)] field_subscript[OF f(3)])
    with s show "stdout st' = stdout st @ dry_iteration_lines env cfg \<and> stderr st' = stderr st
        \<and> (it = placeholder \<or> it = JNull)"
      by simp
  qed
qed

lemma tasks_loop_dry:
  "tasks_loop env True s story idx ts st = (Inr (), st') \<Longrightarrow>
   stdout st' = stdout st @ map (dry_task_line env) ts \<and> stderr st' = stderr st"
proof (induction ts arbitrary: idx st)
  case Nil
  then show ?case by (simp add: ret_def)
next
  case (Cons t ts)
  from Cons.prems have rest: "tasks_loop env True s story (Suc idx) ts
      (st\<lparr>stdout := stdout st @ [''[dry-run]   task: '' @ py_str (repr env) t]\<rparr>) = (Inr (), st')"
    unfolding tasks_loop.simps if_True Let_def
    by (auto elim!: bind_InrE dest!: lift_InrD print_out_InrD)
  from Cons.IH[OF rest] show ?case by (simp add: dry_task_line_def)
qed

lemma story_upsert_dry:
  assumes "story_upsert env True s payload st = (Inr story, st')"
  shows "story = placeholder"
    and "stdout st' = stdout st @ [hd (dry_story_lines env s)]" and "stderr st' = stderr st"
proof -
  from assms obtain name pname ename where
    f: "subscript s ''name'' = Inr name" "subscript s ''project'' = Inr pname"
      "subscript s ''epic'' = Inr ename"
    and r: "story = placeholder"
      "st' = st\<lparr>stdout := stdout st @ [''[dry-run] upsert story: '' @ py_str (repr env) name
                           @ '' (proj '' @ [CHR 0x27] @ py_str (repr env) pname
                           @ [CHR 0x27] @ '', epic '' @ [CHR 0x27]
                           @ py_str (repr env) ename @ [CHR 0x27] @ '')'']\<rparr>"
    unfolding story_upsert_def if_True
    by (auto elim!: bind_InrE dest!: lift_InrD print_out_InrD ret_InrD)
  have "hd (dry_story_lines env s) = ''[dry-run] upsert story: '' @ py_str (repr env) name
                           @ '' (proj '' @ [CHR 0x27] @ py_str (repr env) pname
                           @ [CHR 0x27] @ '', epic '' @ [CHR 0x27]
                           @ py_str (repr env) ename @ [CHR 0x27] @ '')''"
    by (simp add: dry_story_lines_def field_subscript[OF f(1)] field_subscript[OF f(2)]
        field_subscript[OF f(3)])
  with r show "story = placeholder"
    and "stdout st' = stdout st @ [hd (dry_story_lines env s)]" and "stderr st' = stderr st"
    by simp_all
qed

lemma story_step_dry:
  assumes "story_step env True pm em it s st = (Inr (), st')"
  shows "stdout st' = stdout st @ dry_story_lines env s \<and> stderr st' = stderr st"
proof -
  from assms obtain proj epic payload story v ts st1 where
    u: "story_upsert env True s payload st = (Inr story, st1)"
    and v: "dict_get s ''tasks'' (JList []) = Inr v" "py_iter v = Inr ts"
    and t: "tasks_loop env True s story 1 ts st1 = (Inr (), st')"
    unfolding story_step_def
    by (auto elim!: bind_InrE dest!: lift_InrD simp add: raise_def split: if_splits)
  have c: "cfg_list s ''tasks'' = ts" using v by (simp add: cfg_list_def)
  have d: "dry_story_lines env s = hd (dry_story_lines env s) # map (dry_task_line env) ts"
    using c by (simp add: dry_story_lines_def)
  from story_upsert_dry(2,3)[OF u] tasks_loop_dry[OF t] show ?thesis
    by (subst d) simp
qed

lemma stories_loop_dry:
  "stories_loop env True pm em it ss st = (Inr (), st') \<Longrightarrow>
   stdout st' = stdout st @ concat (map (dry_story_lines env) ss) \<and> stderr st' = stderr st"
proof (induction ss arbitrary: st)
  case Nil
  then show ?case by (simp add: ret_def)
next
  case (Cons s ss)
  from Cons.prems obtain st1 where
    a: "story_step env True pm em it s st = (Inr (), st1)"
    and b: "stories_loop env True pm em it ss st1 = (Inr (), st')"
    by (auto elim!: bind_InrE)
  from story_step_dry[OF a] Cons.IH[OF b] show ?case by simp
qed

lemma bootstrap_dry_output:
  assumes "bootstrap env cfg True st = (Inr (), st')"
  shows "stdout st' = stdout st @ dry_output env cfg" and "stderr st' = stderr st"
proof -
  from assms obtain pm ms em it st1 st2 st3 st4 v ss where
    s1: "projects_stage env cfg True st = (Inr pm, st1)"
    and s2: "milestone_stage env cfg True st1 = (Inr ms, st2)"
    and s3: "epics_stage env cfg True ms st2 = (Inr em, st3)"
    and s4: "iteration_stage env cfg True st3 = (Inr it, st4)"
    and v: "dict_get cfg ''stories'' (JList []) = Inr v" "py_iter v = Inr ss"
    and s5: "stories_loop env True pm em it ss st4 = (Inr (), st')"
    unfolding bootstrap_def stories_stage_def
    by (auto elim!: bind_InrE dest!: lift_InrD)
  have c: "cfg_list cfg ''stories'' = ss" using v by (simp add: cfg_list_def)
  from projects_stage_dry(1,2)[OF s1] milestone_stage_dry(1,2)[OF s2] epics_stage_dry(1,2)[OF s3]
    iteration_stage_dry(1,2)[OF s4] stories_loop_dry[OF s5] c
  show "stdout st' = stdout st @ dry_output env cfg" and "stderr st' = stderr st"
    by (simp_all add: dry_output_def)
qed

lemma dry_iteration_lines_tagged:
  "list_all (\<lambda>l. take 10 l = ''[dry-run] '') (dry_iteration_lines env cfg)"
  by (simp add: dry_iteration_lines_def split: sum.splits)

lemma dry_story_lines_tagged:
  "list_all (\<lambda>l. take 10 l = ''[dry-run] '') (dry_story_lines env s)"
  by (simp add: dry_story_lines_def dry_task_line_def list_all_iff)

lemma dry_output_tagged: "list_all (\<lambda>l. take 10 l = ''[dry-run] '') (dry_output env cfg)"
proof -
  have "list_all (\<lambda>l. take 10 l = ''[dry-run] '')
      (concat (map (dry_story_lines env) (cfg_list cfg ''stories'')))"
    using dry_story_lines_tagged[of env] by (auto simp add: list_all_iff)
  with dry_iteration_lines_tagged[of env cfg] show ?thesis
    by (auto simp add: dry_output_def list_all_iff dry_project_line_def dry_milestone_line_def
        dry_epic_line_def)
qed

lemma dry_story_lines_indented:
  "tl (dry_story_lines env s) = map (\<lambda>t. ''[dry-run]   task: '' @ py_str (repr env) t) (cfg_list s ''tasks'')"
  by (simp add: dry_story_lines_def dry_task_line_def)

lemma dry_output_length:
  "length (dry_output env cfg) =
     length (cfg_list cfg ''projects'') + 1 + length (cfg_list cfg ''epics'')
     + length (dry_iteration_lines env cfg)
     + sum_list (map (\<lambda>s. 1 + length (cfg_list s ''tasks'')) (cfg_list cfg ''stories''))"
  by (simp add: dry_output_def length_concat comp_def dry_story_lines_def)

text \<open>
  C8. A dry run, however it ends, leaves the remote side as it was, hands no request to
  the transport, makes no call of \<open>_req\<close> and never sleeps. When it completes, what it
  has printed is exactly the expected output: one line tagged \<open>[dry-run]\<close> for each
  configured project, the milestone, each epic, the iteration if any and each story,
  every story line being followed by one line \<open>[dry-run]   task: ...\<close> for each of its
  tasks; nothing goes to the error stream. The records it hands on in place of remote
  ones (the values of both name dictionaries, the milestone, the iteration when one is
  configured, each story) are the placeholder, whose id is 0.
\<close>

theorem dry_run_prints_only:
  assumes "bootstrap env cfg True st = (r, st')"
  shows "world st' = world st \<and> sent st' = sent st \<and> calls st' = calls st
    \<and> slept st' = slept st
    \<and> (r = Inr () \<longrightarrow> stdout st' = stdout st @ dry_output env cfg \<and> stderr st' = stderr st)
    \<and> list_all (\<lambda>l. take 10 l = ''[dry-run] '') (dry_output env cfg)
    \<and> length (dry_output env cfg) =
         length (cfg_list cfg ''projects'') + 1 + length (cfg_list cfg ''epics'')
         + length (dry_iteration_lines env cfg)
         + sum_list (map (\<lambda>s. 1 + length (cfg_list s ''tasks'')) (cfg_list cfg ''stories''))
    \<and> (\<forall>pm s1 s2. projects_stage env cfg True s1 = (Inr pm, s2) \<longrightarrow> placeholders pm)
    \<and> (\<forall>ms s1 s2. milestone_stage env cfg True s1 = (Inr ms, s2) \<longrightarrow> ms = placeholder)
    \<and> (\<forall>ms em s1 s2. epics_stage env cfg True ms s1 = (Inr em, s2) \<longrightarrow> placeholders em)
    \<and> (\<forall>it s1 s2. iteration_stage env cfg True s1 = (Inr it, s2) \<longrightarrow>
          it = placeholder \<or> it = JNull)
    \<and> (\<forall>s payload story s1 s2.
          story_upsert env True s payload s1 = (Inr story, s2) \<longrightarrow> story = placeholder)
    \<and> subscript placeholder ''id'' = Inr (JInt 0)"
proof -
  have a: "world st' = world st \<and> sent st' = sent st \<and> calls st' = calls st
      \<and> slept st' = slept st"
    using silentD[OF bootstrap_silent assms] .
  have b: "r = Inr () \<longrightarrow> stdout st' = stdout st @ dry_output env cfg \<and> stderr st' = stderr st"
    using bootstrap_dry_output[of env cfg st st'] assms by simp
  have c: "\<forall>pm s1 s2. projects_stage env cfg True s1 = (Inr pm, s2) \<longrightarrow> placeholders pm"
    using projects_stage_dry(3) by blast
  have d: "\<forall>ms s1 s2. milestone_stage env cfg True s1 = (Inr ms, s2) \<longrightarrow> ms = placeholder"
    using milestone_stage_dry(3) by blast
  have e: "\<forall>ms em s1 s2. epics_stage env cfg True ms s1 = (Inr em, s2) \<longrightarrow> placeholders em"
    using epics_stage_dry(3) by blast
  have f: "\<forall>it s1 s2. iteration_stage env cfg True s1 = (Inr it, s2) \<longrightarrow>
          it = placeholder \<or> it = JNull"
    using iteration_stage_dry(3) by blast
  have g: "\<forall>s payload story s1 s2.
          story_upsert env True s payload s1 = (Inr story, s2) \<longrightarrow> story = placeholder"
    using story_upsert_dry(1) by blast
  have h: "subscript placeholder ''id'' = Inr (JInt 0)"
    by (simp add: placeholder_def subscript_def)
  from a b dry_output_tagged[of env cfg] dry_output_length[of env cfg] c d e f g h
  show ?thesis by (simp only: simp_thms)
qed

lemma projects_loop_token:
  "projects_loop (env\<lparr>token := tok\<rparr>) True ps = projects_loop env True ps"
proof (induction ps)
  case Nil
  show ?case by (rule ext) simp
next
  case (Cons p ps)
  show ?case by (rule ext) (simp add: Cons.IH)
qed

lemma epics_loop_token:
  "epics_loop (env\<lparr>token := tok\<rparr>) True ms es = epics_loop env True ms es"
proof (induction es)
  case Nil
  show ?case by (rule ext) simp
next
  case (Cons e es)
  show ?case by (rule ext) (simp add: Cons.IH)
qed

lemma iteration_payload_token:
  "iteration_payload (env\<lparr>token := tok\<rparr>) cfg it_cfg = iteration_payload env cfg it_cfg"
  by (simp add: iteration_payload_def iteration_dates_def iso_week_dates_def
      cong: sum.case_cong if_cong)

lemma tasks_loop_token:
  "tasks_loop (env\<lparr>token := tok\<rparr>) True s story idx ts = tasks_loop env True s story idx ts"
  by (induction ts arbitrary: idx) (simp_all add: task_external_id_def)

lemma story_step_token:
  "story_step (env\<lparr>token := tok\<rparr>) True pm em it s = story_step env True pm em it s"
  by (simp add: story_step_def story_upsert_def tasks_loop_token cong: if_cong)

lemma stories_loop_token:
  "stories_loop (env\<lparr>token := tok\<rparr>) True pm em it ss = stories_loop env True pm em it ss"
  by (induction ss) (simp_all add: story_step_token)

lemma bootstrap_token:
  "bootstrap (env\<lparr>token := tok\<rparr>) cfg True = bootstrap env cfg True"
  by (simp add: bootstrap_def projects_stage_def milestone_stage_def epics_stage_def
      iteration_stage_def stories_stage_def projects_loop_token epics_loop_token
      iteration_payload_token stories_loop_token cong: if_cong)

lemma req_without_token:
  assumes "token env = None \<or> token env = Some []"
  shows "req env m path payload 5 st =
     (Inl (Exit 2),
      st\<lparr>calls := calls st @ [(m, path, payload)],
         stderr := stderr st @ [''ERROR: SHORTCUT_TOKEN env var is required.'']\<rparr>)"
  using assms
  by (auto simp add: req_def eval_nat_numeral bind_def hdrs_def print_err_def raise_def)

text \<open>
  C9. A dry run does not depend on the token: with any value of \<open>SHORTCUT_TOKEN\<close>,
  set or not, \<open>bootstrap\<close> in dry-run mode and \<open>main\<close> under \<open>dry-run\<close> behave and
  end alike, and no request is built. The check of the token is made where a
  request is built: without a token \<open>_req\<close> prints the error and exits with status 2
  before anything is sent.
\<close>

theorem dry_run_needs_no_token:
  "bootstrap (env\<lparr>token := tok\<rparr>) cfg True st = bootstrap env cfg True st
   \<and> main (env\<lparr>token := tok\<rparr>) cfg ''dry-run'' st = main env cfg ''dry-run'' st
   \<and> (\<forall>r st'. bootstrap env cfg True st = (r, st') \<longrightarrow>
         sent st' = sent st \<and> calls st' = calls st)
   \<and> (token env = None \<or> token env = Some [] \<longrightarrow>
        req env m path payload 5 st =
          (Inl (Exit 2),
           st\<lparr>calls := calls st @ [(m, path, payload)],
              stderr := stderr st @ [''ERROR: SHORTCUT_TOKEN env var is required.'']\<rparr>)
        \<and> sent (snd (req env m path payload 5 st)) = sent st)"
proof -
  have a: "bootstrap (env\<lparr>token := tok\<rparr>) cfg True st = bootstrap env cfg True st"
    by (simp add: bootstrap_token)
  have b: "main (env\<lparr>token := tok\<rparr>) cfg ''dry-run'' st = main env cfg ''dry-run'' st"
    by (simp add: main_def bootstrap_token)
  have c: "\<forall>r st'. bootstrap env cfg True st = (r, st') \<longrightarrow>
         sent st' = sent st \<and> calls st' = calls st"
    using silentD[OF bootstrap_silent] by blast
  have d: "token env = None \<or> token env = Some [] \<longrightarrow>
        req env m path payload 5 st =
          (Inl (Exit 2),
           st\<lparr>calls := calls st @ [(m, path, payload)],
              stderr := stderr st @ [''ERROR: SHORTCUT_TOKEN env var is required.'']\<rparr>)
        \<and> sent (snd (req env m path payload 5 st)) = sent st"
    using req_without_token[of env m path payload st] by auto
  from a b c d show ?thesis by (simp only: simp_thms)
qed

lemma demo_dry_run:
  "bootstrap (demo_env tok) demo_cfg True (init []) = (Inr (), (init [])\<lparr>stdout := demo_dry_lines\<rparr>)"
  by (simp add: eval_simps demo_simps init_def demo_dry_lines_def)

text \<open>The dry run of the complete configuration prints seven lines and sends nothing.\<close>

theorem dry_run_prints_only_witness:
  "bootstrap (demo_env None) demo_cfg True (init []) =
     (Inr (), (init [])\<lparr>stdout := demo_dry_lines\<rparr>)
   \<and> dry_output (demo_env None) demo_cfg = demo_dry_lines
   \<and> length demo_dry_lines = 7"
proof -
  have e: "bootstrap (demo_env None) demo_cfg True (init []) =
     (Inr (), (init [])\<lparr>stdout := demo_dry_lines\<rparr>)"
    by (rule demo_dry_run)
  from dry_run_prints_only[OF e]
  have "stdout ((init [])\<lparr>stdout := demo_dry_lines\<rparr> :: response list state)
      = stdout (init [] :: response list state) @ dry_output (demo_env None) demo_cfg"
    by blast
  then have "dry_output (demo_env None) demo_cfg = demo_dry_lines"
    by (simp add: init_def)
  with e show ?thesis by (simp add: demo_dry_lines_def)
qed

text \<open>
  Without a token the dry run of the complete configuration ends with exit status 0, as
  it does with one; a request without a token ends with exit status 2.
\<close>

theorem dry_run_needs_no_token_witness:
  "main (demo_env None) demo_cfg ''dry-run'' (init []) =
     main (demo_env (Some ''t'')) demo_cfg ''dry-run'' (init [])
   \<and> main (demo_env None) demo_cfg ''dry-run'' (init []) =
     (0, (init [])\<lparr>stdout := demo_dry_lines\<rparr>)
   \<and> req (demo_env None) ''GET'' ''/projects'' None 5 (init []) =
     (Inl (Exit 2),
      (init [])\<lparr>calls := [(''GET'', ''/projects'', None)],
         stderr := [''ERROR: SHORTCUT_TOKEN env var is required.'']\<rparr>)"
proof -
  have t: "(demo_env (Some ''t''))\<lparr>token := None\<rparr> = (demo_env None :: response list env)"
    by (simp add: demo_env_def)
  have n: "token (demo_env None :: response list env) = None"
    by (simp add: demo_env_def)
  have m: "main (demo_env None) demo_cfg ''dry-run'' (init []) =
     (0, (init [])\<lparr>stdout := demo_dry_lines\<rparr>)"
    by (simp add: main_def demo_dry_run)
  from dry_run_needs_no_token[where env = "demo_env (Some ''t'')" and tok = None
      and cfg = demo_cfg and st = "init []"]
  have a: "main (demo_env None) demo_cfg ''dry-run'' (init []) =
     main (demo_env (Some ''t'')) demo_cfg ''dry-run'' (init [])"
    unfolding t by blast
  from dry_run_needs_no_token[where env = "demo_env None" and cfg = demo_cfg
      and st = "init []" and m = "''GET''" and path = "''/projects''" and payload = None] n
  have b: "req (demo_env None) ''GET'' ''/projects'' None 5 (init []) =
     (Inl (Exit 2),
      (init [])\<lparr>calls := calls (init [] :: response list state) @ [(''GET'', ''/projects'', None)],
         stderr := stderr (init [] :: response list state)
           @ [''ERROR: SHORTCUT_TOKEN env var is required.'']\<rparr>)"
    by blast
  from a m b show ?thesis by (simp add: init_def)
qed

end
